theory Spec2Isabelle
  imports Main "HOL-Library.Word"
begin

section \<open>Go runtime values shared by the packages\<close>

text \<open>
  A Go \<^verbatim>\<open>string\<close> is a sequence of bytes; it is modelled by \<^typ>\<open>string\<close>, whose
  characters are bytes.  A slice expression out of range panics at run time, so slicing
  returns a sum whose left summand is the panic.
\<close>

datatype panic = SliceOutOfRange

text \<open>\<^verbatim>\<open>s[:n]\<close> on a Go string: panics unless \<open>n \<le> len(s)\<close>.\<close>

definition slice_to :: "string \<Rightarrow> nat \<Rightarrow> panic + string" where
  "slice_to s n = (if n \<le> length s then Inr (take n s) else Inl SliceOutOfRange)"

text \<open>
  \<^verbatim>\<open>strings.Split(s, sep)\<close> for a separator of one byte, the only way the repository calls
  it: the pieces between the occurrences of the separator, one more than there are
  occurrences.
\<close>

fun Split :: "string \<Rightarrow> char \<Rightarrow> string list" where
  "Split [] sep = [[]]"
| "Split (c # cs) sep =
     (if c = sep then [] # Split cs sep
      else (case Split cs sep of
              [] \<Rightarrow> [[c]]
            | p # ps \<Rightarrow> (c # p) # ps))"

section \<open>Package logger: masking of e-mail addresses\<close>

text \<open>
  \<^verbatim>\<open>
  func MaskEmail(email string) string {
      if email == "" { return "" }
      parts := strings.Split(email, "@")
      if len(parts) != 2 { return "***@***" }
      username := parts[0]
      domain := parts[1]
      if len(username) == 0 { return "***@" + domain }
      return username[:1] + "***@" + domain
  }
  \<close>
\<close>

definition MaskEmail :: "string \<Rightarrow> panic + string" where
  "MaskEmail email =
     (if email = [] then Inr []
      else (case Split email CHR ''@'' of
              [username, domain] \<Rightarrow>
                (if length username = 0 then Inr (''***@'' @ domain)
                 else (case slice_to username 1 of
                         Inl p \<Rightarrow> Inl p
                       | Inr first \<Rightarrow> Inr (first @ ''***@'' @ domain)))
            | _ \<Rightarrow> Inr ''***@***''))"

section \<open>Go errors and error chains\<close>

text \<open>
  The error values the repository builds are of three shapes: a sentinel made by
  \<^verbatim>\<open>errors.New\<close> (its own or a library's), a \<^verbatim>\<open>*domainSentinel\<close> made by
  \<^verbatim>\<open>NewDomainError\<close>, which also answers \<^verbatim>\<open>Info()\<close>, and an error made by
  \<^verbatim>\<open>fmt.Errorf\<close> whose format ends in \<^verbatim>\<open>%w\<close>, which wraps one error behind a
  prefix.  Sentinels are identified by their text; the repository declares no two
  sentinels with the same text.
\<close>

datatype go_error =
    Sentinel string
  | DomainSentinel string
  | Wrapf string go_error

fun Error :: "go_error \<Rightarrow> string" where
  "Error (Sentinel msg) = msg"
| "Error (DomainSentinel errInfo) = errInfo"
| "Error (Wrapf prefix err) = prefix @ Error err"

text \<open>\<^verbatim>\<open>Info()\<close> of a domain error.\<close>

fun Info :: "go_error \<Rightarrow> string option" where
  "Info (DomainSentinel errInfo) = Some errInfo"
| "Info _ = None"

text \<open>\<^verbatim>\<open>errors.Is(err, target)\<close>: some error of the chain of \<open>err\<close> equals the target.\<close>

fun errors_Is :: "go_error \<Rightarrow> go_error \<Rightarrow> bool" where
  "errors_Is (Wrapf prefix err) target = (Wrapf prefix err = target \<or> errors_Is err target)"
| "errors_Is err target = (err = target)"

text \<open>
  \<^verbatim>\<open>errors.As(err, &domainErr)\<close> with \<^verbatim>\<open>var domainErr DomainError\<close>: the first error of
  the chain that implements the interface \<^verbatim>\<open>DomainError\<close>, if there is one.  The result
  is the \<^verbatim>\<open>Info()\<close> of that error.
\<close>

fun errors_As_DomainError :: "go_error \<Rightarrow> string option" where
  "errors_As_DomainError (DomainSentinel errInfo) = Some errInfo"
| "errors_As_DomainError (Wrapf prefix err) = errors_As_DomainError err"
| "errors_As_DomainError (Sentinel msg) = None"

text \<open>
  The chain of an error, as repeated \<^verbatim>\<open>errors.Unwrap\<close> walks it: the error itself,
  then what it wraps, and so on.
\<close>

fun chain :: "go_error \<Rightarrow> go_error list" where
  "chain (Wrapf prefix err) = Wrapf prefix err # chain err"
| "chain err = [err]"

section \<open>Package error: the registry of domain error responses\<close>

record ErrorResponse =
  Status :: int
  Code :: string
  Message :: string

text \<open>The client messages are Korean text; they are given by their UTF-8 bytes.\<close>

definition msg_login_required :: string where
  "msg_login_required =
     [CHR 0xEB, CHR 0xA1, CHR 0x9C, CHR 0xEA, CHR 0xB7, CHR 0xB8, CHR 0xEC, CHR 0x9D,
      CHR 0xB8, CHR 0xEC, CHR 0x9D, CHR 0x84, CHR 0x20, CHR 0xED, CHR 0x95, CHR 0xB4,
      CHR 0xEC, CHR 0xA3, CHR 0xBC, CHR 0xEC, CHR 0x84, CHR 0xB8, CHR 0xEC, CHR 0x9A,
      CHR 0x94, CHR ''.'']"

definition msg_auth_failed :: string where
  "msg_auth_failed =
     [CHR 0xEC, CHR 0x9D, CHR 0xB8, CHR 0xEC, CHR 0xA6, CHR 0x9D, CHR 0xEC, CHR 0x97,
      CHR 0x90, CHR 0x20, CHR 0xEC, CHR 0x8B, CHR 0xA4, CHR 0xED, CHR 0x8C, CHR 0xA8,
      CHR 0xED, CHR 0x96, CHR 0x88, CHR 0xEC, CHR 0x8A, CHR 0xB5, CHR 0xEB, CHR 0x8B,
      CHR 0x88, CHR 0xEB, CHR 0x8B, CHR 0xA4, CHR ''.'']"

definition msg_incorrect_email_password :: string where
  "msg_incorrect_email_password =
     [CHR 0xEC, CHR 0x9D, CHR 0xB4, CHR 0xEB, CHR 0xA9, CHR 0x94, CHR 0xEC, CHR 0x9D,
      CHR 0xBC, CHR 0x20, CHR 0xEB, CHR 0x98, CHR 0x90, CHR 0xEB, CHR 0x8A, CHR 0x94,
      CHR 0x20, CHR 0xEB, CHR 0xB9, CHR 0x84, CHR 0xEB, CHR 0xB0, CHR 0x80, CHR 0xEB,
      CHR 0xB2, CHR 0x88, CHR 0xED, CHR 0x98, CHR 0xB8, CHR 0xEA, CHR 0xB0, CHR 0x80,
      CHR 0x20, CHR 0xEC, CHR 0x9D, CHR 0xBC, CHR 0xEC, CHR 0xB9, CHR 0x98, CHR 0xED,
      CHR 0x95, CHR 0x98, CHR 0xEC, CHR 0xA7, CHR 0x80, CHR 0x20, CHR 0xEC, CHR 0x95,
      CHR 0x8A, CHR 0xEC, CHR 0x8A, CHR 0xB5, CHR 0xEB, CHR 0x8B, CHR 0x88, CHR 0xEB,
      CHR 0x8B, CHR 0xA4, CHR ''.'']"

definition msg_member_not_found :: string where
  "msg_member_not_found =
     [CHR 0xED, CHR 0x9A, CHR 0x8C, CHR 0xEC, CHR 0x9B, CHR 0x90, CHR 0x20, CHR 0xEC,
      CHR 0xA0, CHR 0x95, CHR 0xEB, CHR 0xB3, CHR 0xB4, CHR 0xEB, CHR 0xA5, CHR 0xBC,
      CHR 0x20, CHR 0xEC, CHR 0xB0, CHR 0xBE, CHR 0xEC, CHR 0x9D, CHR 0x84, CHR 0x20,
      CHR 0xEC, CHR 0x88, CHR 0x98, CHR 0x20, CHR 0xEC, CHR 0x97, CHR 0x86, CHR 0xEC,
      CHR 0x8A, CHR 0xB5, CHR 0xEB, CHR 0x8B, CHR 0x88, CHR 0xEB, CHR 0x8B, CHR 0xA4,
      CHR ''.'']"

definition msg_member_exists :: string where
  "msg_member_exists =
     [CHR 0xEC, CHR 0x9D, CHR 0xB4, CHR 0xEB, CHR 0xAF, CHR 0xB8, CHR 0x20, CHR 0xEA,
      CHR 0xB0, CHR 0x80, CHR 0xEC, CHR 0x9E, CHR 0x85, CHR 0xEB, CHR 0x90, CHR 0x9C,
      CHR 0x20, CHR 0xEC, CHR 0x82, CHR 0xAC, CHR 0xEC, CHR 0x9A, CHR 0xA9, CHR 0xEC,
      CHR 0x9E, CHR 0x90, CHR 0xEC, CHR 0x9E, CHR 0x85, CHR 0xEB, CHR 0x8B, CHR 0x88,
      CHR 0xEB, CHR 0x8B, CHR 0xA4, CHR ''.'']"

definition msg_internal :: string where
  "msg_internal =
     [CHR 0xEC, CHR 0x84, CHR 0x9C, CHR 0xEB, CHR 0xB2, CHR 0x84, CHR 0x20, CHR 0xEB,
      CHR 0x82, CHR 0xB4, CHR 0xEB, CHR 0xB6, CHR 0x80, CHR 0x20, CHR 0xEC, CHR 0x98,
      CHR 0xA4, CHR 0xEB, CHR 0xA5, CHR 0x98, CHR 0xEA, CHR 0xB0, CHR 0x80, CHR 0x20,
      CHR 0xEB, CHR 0xB0, CHR 0x9C, CHR 0xEC, CHR 0x83, CHR 0x9D, CHR 0xED, CHR 0x96,
      CHR 0x88, CHR 0xEC, CHR 0x8A, CHR 0xB5, CHR 0xEB, CHR 0x8B, CHR 0x88, CHR 0xEB,
      CHR 0x8B, CHR 0xA4, CHR ''.'']"


definition msg_login_failed :: string where
  "msg_login_failed =
     [CHR 0xEB, CHR 0xA1, CHR 0x9C, CHR 0xEA, CHR 0xB7, CHR 0xB8, CHR 0xEC, CHR 0x9D,
      CHR 0xB8, CHR 0x20, CHR 0xEC, CHR 0x8B, CHR 0xA4, CHR 0xED, CHR 0x8C, CHR 0xA8,
      CHR '':'', CHR 0x20]"

definition StatusBadRequest :: int where "StatusBadRequest = 400"
definition StatusUnauthorized :: int where "StatusUnauthorized = 401"
definition StatusNotFound :: int where "StatusNotFound = 404"
definition StatusConflict :: int where "StatusConflict = 409"
definition StatusInternalServerError :: int where "StatusInternalServerError = 500"

definition InternalServerError :: ErrorResponse where
  "InternalServerError =
     \<lparr>Status = StatusInternalServerError, Code = ''ERROR-003'', Message = msg_internal\<rparr>"

text \<open>The zero value \<^verbatim>\<open>ErrorResponse{}\<close>.\<close>

definition ErrorResponse_zero :: ErrorResponse where
  "ErrorResponse_zero = \<lparr>Status = 0, Code = [], Message = []\<rparr>"

definition NewDomainError :: "string \<Rightarrow> go_error" where
  "NewDomainError errInfo = DomainSentinel errInfo"

text \<open>
  The package variable \<^verbatim>\<open>domainErrorResponses\<close> is a Go map from \<^verbatim>\<open>errInfo\<close> to
  response.  Registration stores into it; the functions below pass the map explicitly.
\<close>

type_synonym registry = "string \<rightharpoonup> ErrorResponse"

definition RegisterDomainErrorResponse :: "registry \<Rightarrow> string \<Rightarrow> ErrorResponse \<Rightarrow> registry" where
  "RegisterDomainErrorResponse responses errInfo resp = responses(errInfo \<mapsto> resp)"

text \<open>
  \<^verbatim>\<open>
  func ResolveDomainError(err error) (ErrorResponse, bool) {
      if err == nil { return ErrorResponse{}, false }
      var domainErr DomainError
      if errors.As(err, &domainErr) {
          if resp, ok := domainErrorResponses[domainErr.Info()]; ok { return resp, true }
      }
      return ErrorResponse{}, false
  }
  \<close>
  A Go \<^verbatim>\<open>error\<close> that may be \<^verbatim>\<open>nil\<close> is a \<^typ>\<open>go_error option\<close>.
\<close>

definition ResolveDomainError :: "registry \<Rightarrow> go_error option \<Rightarrow> ErrorResponse \<times> bool" where
  "ResolveDomainError responses err =
     (case err of
        None \<Rightarrow> (ErrorResponse_zero, False)
      | Some e \<Rightarrow>
          (case errors_As_DomainError e of
             Some info \<Rightarrow>
               (case responses info of
                  Some resp \<Rightarrow> (resp, True)
                | None \<Rightarrow> (ErrorResponse_zero, False))
           | None \<Rightarrow> (ErrorResponse_zero, False)))"

subsection \<open>The domain errors of the packages and their registration at start-up\<close>

definition memberAlreadyExists :: string where "memberAlreadyExists = ''MEMBER_ALREADY_EXISTS''"
definition memberNotFound :: string where "memberNotFound = ''MEMBER_NOT_FOUND''"
definition incorrectEmailPassword :: string where
  "incorrectEmailPassword = ''INCORRECT_EMAIL_PASSWORD''"
definition missingToken :: string where "missingToken = ''MISSING_TOKEN''"
definition invalidToken :: string where "invalidToken = ''INVALID_TOKEN''"
definition expiredToken :: string where "expiredToken = ''EXPIRED_TOKEN''"
definition invalidClaims :: string where "invalidClaims = ''INVALID_CLAIMS''"

definition ErrMemberAlreadyExists :: go_error where
  "ErrMemberAlreadyExists = NewDomainError memberAlreadyExists"
definition ErrInCorrectEmailPassword :: go_error where
  "ErrInCorrectEmailPassword = NewDomainError incorrectEmailPassword"

text \<open>The four domain errors of package middleware (\<^verbatim>\<open>middleware.ErrInvalidToken\<close> ...).\<close>

definition middleware_ErrMissingToken :: go_error where
  "middleware_ErrMissingToken = NewDomainError missingToken"
definition middleware_ErrInvalidToken :: go_error where
  "middleware_ErrInvalidToken = NewDomainError invalidToken"
definition middleware_ErrExpiredToken :: go_error where
  "middleware_ErrExpiredToken = NewDomainError expiredToken"
definition middleware_ErrInvalidClaims :: go_error where
  "middleware_ErrInvalidClaims = NewDomainError invalidClaims"

text \<open>\<^verbatim>\<open>init()\<close> of package member.\<close>

definition member_init :: "registry \<Rightarrow> registry" where
  "member_init responses =
     RegisterDomainErrorResponse
       (RegisterDomainErrorResponse responses memberNotFound
          \<lparr>Status = StatusNotFound, Code = ''MEMBER-001'', Message = msg_member_not_found\<rparr>)
       memberAlreadyExists
       \<lparr>Status = StatusConflict, Code = ''MEMBER-002'', Message = msg_member_exists\<rparr>"

text \<open>\<^verbatim>\<open>init()\<close> of package auth.\<close>

definition auth_init :: "registry \<Rightarrow> registry" where
  "auth_init responses =
     RegisterDomainErrorResponse responses incorrectEmailPassword
       \<lparr>Status = StatusBadRequest, Code = ''AUTH-003'',
        Message = msg_incorrect_email_password\<rparr>"

text \<open>\<^verbatim>\<open>init()\<close> of package middleware: the same response for its four errors.\<close>

definition login_required :: ErrorResponse where
  "login_required =
     \<lparr>Status = StatusUnauthorized, Code = ''AUTH-000'', Message = msg_login_required\<rparr>"

definition middleware_init :: "registry \<Rightarrow> registry" where
  "middleware_init responses =
     RegisterDomainErrorResponse
       (RegisterDomainErrorResponse
          (RegisterDomainErrorResponse
             (RegisterDomainErrorResponse responses missingToken login_required)
             invalidToken login_required)
          expiredToken login_required)
       invalidClaims login_required"

text \<open>
  The registry once every package is initialised.  The keys are distinct, so the order
  in which the Go runtime runs the three \<^verbatim>\<open>init\<close> functions does not matter.
\<close>

definition domainErrorResponses :: registry where
  "domainErrorResponses = middleware_init (auth_init (member_init Map.empty))"

text \<open>
  The error branch that the handlers \<^verbatim>\<open>AuthHandler.Login\<close>, \<^verbatim>\<open>AuthHandler.Signup\<close> and
  \<^verbatim>\<open>MemberHandler.GetProfile\<close> share: the resolved response if there is one, the generic
  \<^verbatim>\<open>InternalServerError\<close> otherwise.  The result is the body handed to
  \<^verbatim>\<open>handler.RespondError\<close>, which sends it with its own status.
\<close>

definition RespondError_of :: "registry \<Rightarrow> go_error \<Rightarrow> ErrorResponse" where
  "RespondError_of responses err =
     (case ResolveDomainError responses (Some err) of
        (resp, True) \<Rightarrow> resp
      | (resp, False) \<Rightarrow> InternalServerError)"

section \<open>Package model and the member table\<close>

text \<open>
  \<^verbatim>\<open>model.Member\<close>: the identity is a \<^verbatim>\<open>uint32\<close>.  The audit columns of the embedded
  \<^verbatim>\<open>BaseEntity\<close> are maintained by the storage layer and read by no function below; they
  are left out.
\<close>

record Member =
  ID :: "32 word"
  Email :: string
  Name :: string
  PhoneNumber :: string
  Password :: string

definition NewMember :: "string \<Rightarrow> string \<Rightarrow> string \<Rightarrow> string \<Rightarrow> Member" where
  "NewMember name email phoneNumber password =
     \<lparr>ID = 0, Email = email, Name = name, PhoneNumber = phoneNumber, Password = password\<rparr>"

text \<open>
  The database handle \<^verbatim>\<open>*gorm.DB\<close> stands for the table \<^verbatim>\<open>member\<close>: its rows in the
  order of insertion, the next value of the identity column, and a fault: when set,
  the connection is unusable (lost, or the request's context is cancelled) and
  every statement returns that error.  The column tags of \<^verbatim>\<open>model.Member\<close> declare the
  primary key \<^verbatim>\<open>id\<close> and the unique index \<^verbatim>\<open>idx_member_email\<close>; an insert that would
  break either is refused by the table.
\<close>

record DB =
  rows :: "Member list"
  next_id :: "32 word"
  fault :: "go_error option"

definition ErrRecordNotFound :: go_error where
  "ErrRecordNotFound = Sentinel ''record not found''"

definition ErrUniqueViolation :: go_error where
  "ErrUniqueViolation = Sentinel ''unique constraint violated''"

text \<open>
  \<^verbatim>\<open>First\<close> orders by primary key and takes one row: the match with the least identity.
\<close>

definition first_by_id :: "Member list \<Rightarrow> Member option" where
  "first_by_id matches =
     (case matches of
        [] \<Rightarrow> None
      | m # ms \<Rightarrow> Some (fold (\<lambda>x best. if ID x < ID best then x else best) ms m))"

section \<open>Package member: the repository\<close>

text \<open>
  \<^verbatim>\<open>
  func (m *MemberRepository) IsExist(ctx, db, email string) (bool, error) {
      var count int64
      err := db.WithContext(ctx).Model(&model.Member{}).Where("email = ?", email).Count(&count).Error
      if err != nil { return false, err }
      return count > 0, nil
  }
  \<close>
\<close>

definition IsExist :: "DB \<Rightarrow> string \<Rightarrow> go_error + bool" where
  "IsExist db email =
     (case fault db of
        Some err \<Rightarrow> Inl err
      | None \<Rightarrow> Inr (0 < length (filter (\<lambda>m. Email m = email) (rows db))))"

text \<open>
  \<^verbatim>\<open>Create\<close> inserts the row; the table assigns the identity.  The result is the error,
  if any, and the table afterwards.
\<close>

definition Create :: "DB \<Rightarrow> Member \<Rightarrow> go_error option \<times> DB" where
  "Create db member =
     (case fault db of
        Some err \<Rightarrow> (Some err, db)
      | None \<Rightarrow>
          (if filter (\<lambda>m. Email m = Email member \<or> ID m = next_id db) (rows db) \<noteq> []
           then (Some ErrUniqueViolation, db)
           else (None, db\<lparr>rows := rows db @ [member\<lparr>ID := next_id db\<rparr>],
                          next_id := next_id db + 1\<rparr>)))"

definition FindByEmail :: "DB \<Rightarrow> string \<Rightarrow> go_error + Member" where
  "FindByEmail db email =
     (case fault db of
        Some err \<Rightarrow> Inl err
      | None \<Rightarrow>
          (case first_by_id (filter (\<lambda>m. Email m = email) (rows db)) of
             None \<Rightarrow> Inl ErrRecordNotFound
           | Some member \<Rightarrow> Inr member))"


section \<open>Package database: transactions\<close>

text \<open>
  \<^verbatim>\<open>WithTransaction(ctx, db, fn)\<close> runs \<open>fn\<close> on a transaction handle: when \<open>fn\<close> returns
  an error the writes are rolled back and the error is returned, when it returns
  \<^verbatim>\<open>nil\<close> they are committed.  Beginning the transaction fails on an unusable
  connection.  The closure may assign variables of the calling function; these are
  the second component of the closure's state, and a rollback does not undo them.
\<close>

definition WithTransaction ::
  "DB \<Rightarrow> 'v \<Rightarrow> (DB \<Rightarrow> 'v \<Rightarrow> go_error option \<times> DB \<times> 'v) \<Rightarrow> go_error option \<times> DB \<times> 'v" where
  "WithTransaction db vars fn =
     (case fault db of
        Some err \<Rightarrow> (Some err, db, vars)
      | None \<Rightarrow>
          (case fn db vars of
             (None, tx, vars') \<Rightarrow> (None, tx, vars')
           | (Some err, tx, vars') \<Rightarrow> (Some err, db, vars')))"

section \<open>Package member: the profile service\<close>

record GetProfileResponse =
  ID :: "32 word"
  Name :: string
  Email :: string
  PhoneNumber :: string


section \<open>Package auth: login and signup\<close>

record LoginRequest =
  Email :: string
  Password :: string

record SignupRequest =
  Name :: string
  Email :: string
  PhoneNumber :: string
  Password :: string

record 't LoginResponse =
  AccessToken :: 't
  RefreshToken :: 't

text \<open>
  The interface \<^verbatim>\<open>token.Manager\<close> as far as the service calls it.  The type \<open>'t\<close> is
  the type of token strings.
\<close>

record 't Manager =
  Manager_GenerateAccessToken :: "string \<Rightarrow> string \<Rightarrow> go_error + 't"
  Manager_GenerateRefreshToken :: "string \<Rightarrow> string \<Rightarrow> go_error + 't"

text \<open>\<^verbatim>\<open>strconv.FormatUint(n, 10)\<close>.\<close>

definition digit_char :: "nat \<Rightarrow> char" where
  "digit_char d = ''0123456789'' ! d"

function FormatUint :: "nat \<Rightarrow> string" where
  "FormatUint n = (if n < 10 then [digit_char n] else FormatUint (n div 10) @ [digit_char (n mod 10)])"
  by pat_completeness auto
termination
  by (relation "measure id") auto

declare FormatUint.simps [simp del]

text \<open>
  \<^verbatim>\<open>AuthService.Login\<close>.  The password check of the bcrypt library is the parameter
  \<open>CompareHashAndPassword\<close>: it takes the stored hash and the password and returns an
  error unless they match.
  \<^verbatim>\<open>
  member, err := a.memberRepository.FindByEmail(ctx, a.db, request.Email)
  if err != nil {
      if errors.Is(err, gorm.ErrRecordNotFound) {
          return nil, fmt.Errorf("error %w", ErrInCorrectEmailPassword)
      }
      return nil, fmt.Errorf("... : %w", err)
  }
  if err := bcrypt.CompareHashAndPassword([]byte(member.Password), []byte(request.Password)); err != nil {
      return nil, fmt.Errorf("error %w", ErrInCorrectEmailPassword)
  }
  memberID := strconv.FormatUint(uint64(member.ID), 10)
  accessToken, err := a.tokenManager.GenerateAccessToken(memberID, member.Email)
  if err != nil { return nil, fmt.Errorf("generate access token: %w", err) }
  refreshToken, err := a.tokenManager.GenerateRefreshToken(memberID, member.Email)
  if err != nil { return nil, fmt.Errorf("generate refresh token: %w", err) }
  return &LoginResponse{AccessToken: accessToken, RefreshToken: refreshToken}, nil
  \<close>
\<close>

definition Login ::
  "(string \<Rightarrow> string \<Rightarrow> go_error option) \<Rightarrow> 't Manager \<Rightarrow> DB \<Rightarrow> LoginRequest
     \<Rightarrow> go_error + 't LoginResponse" where
  "Login CompareHashAndPassword tokenManager db request =
     (case FindByEmail db (LoginRequest.Email request) of
        Inl err \<Rightarrow>
          (if errors_Is err ErrRecordNotFound
           then Inl (Wrapf ''error '' ErrInCorrectEmailPassword)
           else Inl (Wrapf msg_login_failed err))
      | Inr member \<Rightarrow>
          (case CompareHashAndPassword (Member.Password member) (LoginRequest.Password request) of
             Some err \<Rightarrow> Inl (Wrapf ''error '' ErrInCorrectEmailPassword)
           | None \<Rightarrow>
               (let memberID = FormatUint (unat (Member.ID member)) in
                case Manager_GenerateAccessToken tokenManager memberID (Member.Email member) of
                  Inl err \<Rightarrow> Inl (Wrapf ''generate access token: '' err)
                | Inr accessToken \<Rightarrow>
                    (case Manager_GenerateRefreshToken tokenManager memberID
                            (Member.Email member) of
                       Inl err \<Rightarrow> Inl (Wrapf ''generate refresh token: '' err)
                     | Inr refreshToken \<Rightarrow>
                         Inr \<lparr>AccessToken = accessToken, RefreshToken = refreshToken\<rparr>))))"

text \<open>
  \<^verbatim>\<open>AuthService.Signup\<close>.  The hash function of the bcrypt library is the parameter
  \<open>GenerateFromPassword\<close>; it may fail.
  \<^verbatim>\<open>
  return database.WithTransaction(ctx, a.db, func(tx *gorm.DB) error {
      exists, err := a.memberRepository.IsExist(ctx, tx, request.Email)
      if err != nil { return fmt.Errorf("check member existence: %w", err) }
      if exists { return fmt.Errorf("error %w", member.ErrMemberAlreadyExists) }
      hashedPassword, err := bcrypt.GenerateFromPassword([]byte(request.Password), bcrypt.DefaultCost)
      if err != nil { return fmt.Errorf("hash password: %w", err) }
      member := model.NewMember(request.Name, request.Email, request.PhoneNumber, string(hashedPassword))
      if err := a.memberRepository.Create(ctx, tx, member); err != nil {
          return fmt.Errorf("create member: %w", err)
      }
      return nil
  })
  \<close>
\<close>

definition Signup ::
  "(string \<Rightarrow> go_error + string) \<Rightarrow> DB \<Rightarrow> SignupRequest \<Rightarrow> go_error option \<times> DB" where
  "Signup GenerateFromPassword db request =
     (case WithTransaction db ()
        (\<lambda>tx vars.
           case IsExist tx (SignupRequest.Email request) of
             Inl err \<Rightarrow> (Some (Wrapf ''check member existence: '' err), tx, vars)
           | Inr exists \<Rightarrow>
               (if exists then (Some (Wrapf ''error '' ErrMemberAlreadyExists), tx, vars)
                else (case GenerateFromPassword (SignupRequest.Password request) of
                        Inl err \<Rightarrow> (Some (Wrapf ''hash password: '' err), tx, vars)
                      | Inr hashedPassword \<Rightarrow>
                          (let member = NewMember (SignupRequest.Name request)
                                          (SignupRequest.Email request)
                                          (SignupRequest.PhoneNumber request) hashedPassword
                           in case Create tx member of
                                (Some err, tx') \<Rightarrow> (Some (Wrapf ''create member: '' err), tx', vars)
                              | (None, tx') \<Rightarrow> (None, tx', vars)))))
      of (err, db', vars) \<Rightarrow> (err, db'))"

section \<open>Package token: claims and the token manager\<close>

text \<open>
  Instants are nanoseconds since the Unix epoch and durations are nanoseconds, as
  \<^verbatim>\<open>time.Time\<close> and \<^verbatim>\<open>time.Duration\<close> count them.  \<^verbatim>\<open>t.Unix()\<close> is the number of whole
  seconds; \<^verbatim>\<open>jwt.NewNumericDate(t)\<close> keeps the instant truncated to the second.
\<close>

type_synonym Time = int
type_synonym Duration = int

definition Unix :: "Time \<Rightarrow> int" where
  "Unix t = t div 1000000000"

definition NewNumericDate :: "Time \<Rightarrow> Time" where
  "NewNumericDate t = t - t mod 1000000000"

text \<open>
  \<^verbatim>\<open>jwt.RegisteredClaims\<close>, with the fields the repository sets and the field
  \<^verbatim>\<open>NotBefore\<close>, which the validator of the library consults; the pointers
  \<^verbatim>\<open>*NumericDate\<close> are options.  \<^verbatim>\<open>Audience\<close> and \<^verbatim>\<open>ID\<close> are never set and never
  checked, and are left out.
\<close>

record RegisteredClaims =
  Issuer :: string
  Subject :: string
  ExpiresAt :: "Time option"
  NotBefore :: "Time option"
  IssuedAt :: "Time option"

text \<open>
  \<^verbatim>\<open>
  type Claims struct {
      MemberID  string `json:"member_id"`
      Email     string `json:"email"`
      TokenType string `json:"token_type"`
      ExpiresAt int64  `json:"exp"`
      IssuedAt  int64  `json:"iat"`
      jwt.RegisteredClaims
  }
  \<close>
\<close>

record Claims =
  MemberID :: string
  Email :: string
  TokenType :: string
  ExpiresAt :: int
  IssuedAt :: int
  Registered :: RegisteredClaims

definition ACCESS :: string where "ACCESS = ''access''"
definition REFRESH :: string where "REFRESH = ''refresh''"

definition token_ErrInvalidToken :: go_error where
  "token_ErrInvalidToken = Sentinel ''token: invalid token''"
definition token_ErrExpiredToken :: go_error where
  "token_ErrExpiredToken = Sentinel ''token: expired token''"
definition token_ErrInvalidClaims :: go_error where
  "token_ErrInvalidClaims = Sentinel ''token: invalid claims''"

record JWTManager =
  secret :: string
  issuer :: string
  accessExpiry :: Duration
  refreshExpiry :: Duration

subsection \<open>The boundary to the jwt library\<close>

text \<open>
  The errors of \<^verbatim>\<open>github.com/golang-jwt/jwt/v5\<close> that the parser reports.  One failure
  carries several of them (an expired token is reported as invalid claims and as
  expired), and \<^verbatim>\<open>errors.Is\<close> holds for each; a failure is the list of them.
\<close>

datatype jwt_error =
    ErrTokenMalformed
  | ErrTokenUnverifiable
  | ErrTokenSignatureInvalid
  | ErrTokenInvalidClaims
  | ErrTokenExpired
  | ErrTokenNotValidYet

text \<open>
  What the parser returns on success: a \<^verbatim>\<open>*jwt.Token\<close> with its \<^verbatim>\<open>Claims\<close>, an interface
  value whose dynamic type is \<^verbatim>\<open>*Claims\<close> or some other type, and its flag \<^verbatim>\<open>Valid\<close>.
\<close>

datatype token_claims = CustomClaims Claims | ForeignClaims

record Token =
  Token_Claims :: token_claims
  Valid :: bool

text \<open>
  \<^verbatim>\<open>
  func (m *JWTManager) GenerateAccessToken(memberID, email string) (string, error) {
      now := time.Now()
      expiresAt := now.Add(m.accessExpiry)
      claims := Claims{
          MemberID: memberID, Email: email, ExpiresAt: expiresAt.Unix(),
          TokenType: ACCESS, IssuedAt: now.Unix(),
          RegisteredClaims: jwt.RegisteredClaims{
              ExpiresAt: jwt.NewNumericDate(expiresAt),
              IssuedAt:  jwt.NewNumericDate(now),
              Issuer:    m.issuer,
          },
      }
      token := jwt.NewWithClaims(jwt.SigningMethodHS256, claims)
      return token.SignedString(m.secret)
  }
  \<close>
  The clock reading \<^verbatim>\<open>time.Now()\<close> is the argument \<open>now\<close>.  The library call that
  builds and signs the token is the argument \<open>SignedString\<close>; it takes the signing
  method, the key and the claims.  A field the literal does not mention has its zero
  value: the \<^verbatim>\<open>Subject\<close> of the access token is the empty string, and \<^verbatim>\<open>NotBefore\<close>
  is \<^verbatim>\<open>nil\<close>.
\<close>

definition GenerateAccessToken ::
  "(string \<Rightarrow> string \<Rightarrow> Claims \<Rightarrow> go_error + 't) \<Rightarrow> JWTManager \<Rightarrow> Time \<Rightarrow> string \<Rightarrow> string
     \<Rightarrow> go_error + 't" where
  "GenerateAccessToken SignedString m now memberID email =
     (let expiresAt = now + accessExpiry m;
          claims = \<lparr>MemberID = memberID, Email = email, TokenType = ACCESS,
                    Claims.ExpiresAt = Unix expiresAt, Claims.IssuedAt = Unix now,
                    Registered =
                      \<lparr>Issuer = issuer m, Subject = [],
                       RegisteredClaims.ExpiresAt = Some (NewNumericDate expiresAt),
                       NotBefore = None,
                       RegisteredClaims.IssuedAt = Some (NewNumericDate now)\<rparr>\<rparr>
      in SignedString ''HS256'' (secret m) claims)"

text \<open>\<^verbatim>\<open>GenerateRefreshToken\<close>: the same with the refresh lifetime, and with \<^verbatim>\<open>Subject: memberID\<close>.\<close>

definition GenerateRefreshToken ::
  "(string \<Rightarrow> string \<Rightarrow> Claims \<Rightarrow> go_error + 't) \<Rightarrow> JWTManager \<Rightarrow> Time \<Rightarrow> string \<Rightarrow> string
     \<Rightarrow> go_error + 't" where
  "GenerateRefreshToken SignedString m now memberID email =
     (let expiresAt = now + refreshExpiry m;
          claims = \<lparr>MemberID = memberID, Email = email, TokenType = REFRESH,
                    Claims.ExpiresAt = Unix expiresAt, Claims.IssuedAt = Unix now,
                    Registered =
                      \<lparr>Issuer = issuer m, Subject = memberID,
                       RegisteredClaims.ExpiresAt = Some (NewNumericDate expiresAt),
                       NotBefore = None,
                       RegisteredClaims.IssuedAt = Some (NewNumericDate now)\<rparr>\<rparr>
      in SignedString ''HS256'' (secret m) claims)"

text \<open>
  \<^verbatim>\<open>
  func (m *JWTManager) ValidateToken(tokenString string) (*Claims, error) {
      parser := jwt.NewParser(jwt.WithValidMethods([]string{jwt.SigningMethodHS256.Name}))
      token, err := parser.ParseWithClaims(tokenString, &Claims{}, func(token *jwt.Token) (interface{}, error) {
          return m.secret, nil
      })
      if err != nil {
          if errors.Is(err, jwt.ErrTokenExpired) { return nil, ErrExpiredToken }
          return nil, ErrInvalidToken
      }
      claims, ok := token.Claims.(*Claims)
      if !ok { return nil, ErrInvalidClaims }
      if !token.Valid { return nil, ErrInvalidToken }
      return claims, nil
  }
  \<close>
  The library's parser is the argument \<open>ParseWithClaims\<close>: it takes the list of valid
  methods, the key that the key function returns, and the token string.
\<close>

definition ValidateToken ::
  "(string list \<Rightarrow> string \<Rightarrow> 't \<Rightarrow> jwt_error list + Token) \<Rightarrow> JWTManager \<Rightarrow> 't
     \<Rightarrow> go_error + Claims" where
  "ValidateToken ParseWithClaims m tokenString =
     (case ParseWithClaims [''HS256''] (secret m) tokenString of
        Inl err \<Rightarrow>
          (if ErrTokenExpired \<in> set err then Inl token_ErrExpiredToken
           else Inl token_ErrInvalidToken)
      | Inr token \<Rightarrow>
          (case Token_Claims token of
             ForeignClaims \<Rightarrow> Inl token_ErrInvalidClaims
           | CustomClaims claims \<Rightarrow>
               (if \<not> Valid token then Inl token_ErrInvalidToken else Inr claims)))"

subsection \<open>The HS256 path of the jwt library\<close>

text \<open>
  \<^verbatim>\<open>github.com/golang-jwt/jwt/v5\<close> is a dependency, not part of the repository.  The
  definitions of this subsection describe what its signer and its parser do with the
  \<^verbatim>\<open>Claims\<close> struct above, so that the manager can be run end to end.

  A token string has three segments separated by dots, each base64url text.  It is
  represented first by what the segments decode to: the header, the JSON object of the
  claims, and the bytes of the signature.  A segment that does not decode (bad
  base64url, bad JSON, or JSON that does not fit the Go type) is \<open>Undecodable\<close>.
  The text of the signature segment and its decoding are added in the next
  subsection.  The MAC (HMAC-SHA256 over the first two segments, under the key) is
  the parameter \<open>mac\<close>.
\<close>

record Header =
  alg :: string
  token_typ :: string

text \<open>
  \<^verbatim>\<open>encoding/json\<close> writes a Go string as a JSON string coerced to valid UTF-8: a
  byte that does not begin a well-formed UTF-8 encoding (as \<^verbatim>\<open>utf8.DecodeRune\<close> accepts
  them: no overlong forms, no surrogates, nothing above U+10FFFF) is replaced by the
  replacement character U+FFFD, whose encoding is the three bytes \<^verbatim>\<open>EF BF BD\<close>.
  Reading the JSON string gives these bytes back.
\<close>

definition continuation :: "nat \<Rightarrow> bool" where
  "continuation b \<longleftrightarrow> 0x80 \<le> b \<and> b \<le> 0xBF"

text \<open>The \<open>n\<close> bytes after the first: the second within the given range, the others
  continuation bytes.\<close>

definition accept :: "nat \<Rightarrow> nat \<Rightarrow> nat \<Rightarrow> nat list \<Rightarrow> bool" where
  "accept lo hi n bs =
     (case bs of
        [] \<Rightarrow> False
      | b1 # rest \<Rightarrow>
          lo \<le> b1 \<and> b1 \<le> hi \<and> n - 1 \<le> length rest
          \<and> list_all continuation (take (n - 1) rest))"

text \<open>The length of the well-formed encoding at the head of the bytes, 0 if there is
  none.\<close>

fun rune_len :: "nat list \<Rightarrow> nat" where
  "rune_len [] = 0"
| "rune_len (b0 # bs) =
     (if b0 < 0x80 then 1
      else if b0 < 0xC2 then 0
      else if b0 \<le> 0xDF then (if accept 0x80 0xBF 1 bs then 2 else 0)
      else if b0 = 0xE0 then (if accept 0xA0 0xBF 2 bs then 3 else 0)
      else if b0 = 0xED then (if accept 0x80 0x9F 2 bs then 3 else 0)
      else if b0 \<le> 0xEF then (if accept 0x80 0xBF 2 bs then 3 else 0)
      else if b0 = 0xF0 then (if accept 0x90 0xBF 3 bs then 4 else 0)
      else if b0 \<le> 0xF3 then (if accept 0x80 0xBF 3 bs then 4 else 0)
      else if b0 = 0xF4 then (if accept 0x80 0x8F 3 bs then 4 else 0)
      else 0)"

function coerce_valid_utf8 :: "string \<Rightarrow> string" where
  "coerce_valid_utf8 [] = []"
| "coerce_valid_utf8 (c # cs) =
     (case rune_len (map of_char (c # cs)) of
        0 \<Rightarrow> [CHR 0xEF, CHR 0xBF, CHR 0xBD] @ coerce_valid_utf8 cs
      | Suc k \<Rightarrow> c # take k cs @ coerce_valid_utf8 (drop k cs))"
  by pat_completeness auto
termination
  by (relation "measure length") auto

text \<open>\<^verbatim>\<open>utf8.ValidString\<close>: the string is made of well-formed encodings only.\<close>

function ValidString :: "string \<Rightarrow> bool" where
  "ValidString [] = True"
| "ValidString (c # cs) =
     (case rune_len (map of_char (c # cs)) of
        0 \<Rightarrow> False
      | Suc k \<Rightarrow> ValidString (drop k cs))"
  by pat_completeness auto
termination
  by (relation "measure length") auto

text \<open>
  The JSON object that \<^verbatim>\<open>encoding/json\<close> writes for a \<^verbatim>\<open>Claims\<close> and reads into one;
  the field \<open>json_exp\<close> is the key \<^verbatim>\<open>exp\<close>, and so on.
  The tags \<^verbatim>\<open>exp\<close> and \<^verbatim>\<open>iat\<close> occur twice in the struct: on the fields \<^verbatim>\<open>ExpiresAt\<close> and
  \<^verbatim>\<open>IssuedAt\<close> of \<^verbatim>\<open>Claims\<close> itself, and on the fields of the same names of the embedded
  \<^verbatim>\<open>jwt.RegisteredClaims\<close>.  For one JSON name \<^verbatim>\<open>encoding/json\<close> uses the least nested
  field only, so both keys belong to the \<^verbatim>\<open>int64\<close> fields of \<^verbatim>\<open>Claims\<close>, and the two
  \<^verbatim>\<open>*NumericDate\<close> fields of \<^verbatim>\<open>RegisteredClaims\<close> are neither written nor read.  The
  registered strings are tagged \<^verbatim>\<open>omitempty\<close>: the empty string is an absent key.
  The key \<^verbatim>\<open>nbf\<close> belongs to \<^verbatim>\<open>RegisteredClaims.NotBefore\<close> alone; it is given by the
  instant it denotes, and is absent when \<open>None\<close>.
\<close>

record ClaimsJSON =
  json_member_id :: string
  json_email :: string
  json_token_type :: string
  json_exp :: int
  json_iat :: int
  json_iss :: string
  json_sub :: string
  json_nbf :: "Time option"

definition marshal_Claims :: "Claims \<Rightarrow> ClaimsJSON" where
  "marshal_Claims c =
     \<lparr>json_member_id = coerce_valid_utf8 (MemberID c),
      json_email = coerce_valid_utf8 (Claims.Email c),
      json_token_type = coerce_valid_utf8 (TokenType c),
      json_exp = Claims.ExpiresAt c, json_iat = Claims.IssuedAt c,
      json_iss = coerce_valid_utf8 (Issuer (Registered c)),
      json_sub = coerce_valid_utf8 (Subject (Registered c)),
      json_nbf = NotBefore (Registered c)\<rparr>"

definition unmarshal_Claims :: "ClaimsJSON \<Rightarrow> Claims" where
  "unmarshal_Claims j =
     \<lparr>MemberID = json_member_id j, Claims.Email = json_email j,
      TokenType = json_token_type j,
      Claims.ExpiresAt = json_exp j, Claims.IssuedAt = json_iat j,
      Registered = \<lparr>Issuer = json_iss j, Subject = json_sub j,
                     RegisteredClaims.ExpiresAt = None,
                     NotBefore = json_nbf j,
                     RegisteredClaims.IssuedAt = None\<rparr>\<rparr>"

datatype 'a segment = Undecodable | Decoded 'a

datatype token_text =
    NotThreeSegments
  | Segments "Header segment" "ClaimsJSON segment" "string segment"

type_synonym mac_fn = "string \<Rightarrow> Header \<times> ClaimsJSON \<Rightarrow> string"

text \<open>
  \<^verbatim>\<open>jwt.NewWithClaims(method, claims).SignedString(key)\<close>.  With a byte-slice key
  HS256 does not fail.
\<close>

definition jwt_SignedString :: "mac_fn \<Rightarrow> string \<Rightarrow> string \<Rightarrow> Claims \<Rightarrow> go_error + token_text" where
  "jwt_SignedString mac method key claims =
     (let h = \<lparr>alg = method, token_typ = ''JWT''\<rparr>;
          j = marshal_Claims claims
      in Inr (Segments (Decoded h) (Decoded j) (Decoded (mac key (h, j)))))"

text \<open>
  The validator of the library asks the claims for \<^verbatim>\<open>GetExpirationTime()\<close> and
  \<^verbatim>\<open>GetNotBefore()\<close>, which \<^verbatim>\<open>*Claims\<close> inherits from the embedded
  \<^verbatim>\<open>RegisteredClaims\<close>: they are its \<^verbatim>\<open>*NumericDate\<close> fields.  A \<^verbatim>\<open>nil\<close> date passes
  (both claims are optional by default); otherwise the token is expired unless the
  clock is before the expiry, and not yet valid while the clock is before the
  not-before date.  The issue date is not checked by default.  A failure is reported
  as invalid claims together with its causes.
\<close>

definition jwt_Validate :: "Time \<Rightarrow> Claims \<Rightarrow> jwt_error list" where
  "jwt_Validate now claims =
     (let errs =
            (case RegisteredClaims.ExpiresAt (Registered claims) of
               None \<Rightarrow> []
             | Some expiry \<Rightarrow> (if now < expiry then [] else [ErrTokenExpired]))
            @ (case NotBefore (Registered claims) of
                 None \<Rightarrow> []
               | Some notBefore \<Rightarrow> (if now < notBefore then [ErrTokenNotValidYet] else []))
      in if errs = [] then [] else ErrTokenInvalidClaims # errs)"

text \<open>
  \<^verbatim>\<open>Parser.ParseWithClaims(tokenString, &Claims{}, keyFunc)\<close> with the option
  \<^verbatim>\<open>WithValidMethods\<close>: split and decode, refuse a method that is not listed, verify
  the signature under the key, validate the claims, and return the token with
  \<^verbatim>\<open>Valid\<close> set.
\<close>

definition jwt_ParseWithClaims ::
  "mac_fn \<Rightarrow> Time \<Rightarrow> string list \<Rightarrow> string \<Rightarrow> token_text \<Rightarrow> jwt_error list + Token" where
  "jwt_ParseWithClaims mac now validMethods key tokenString =
     (case tokenString of
        NotThreeSegments \<Rightarrow> Inl [ErrTokenMalformed]
      | Segments Undecodable cs ss \<Rightarrow> Inl [ErrTokenMalformed]
      | Segments (Decoded h) Undecodable ss \<Rightarrow> Inl [ErrTokenMalformed]
      | Segments (Decoded h) (Decoded j) ss \<Rightarrow>
          (if alg h \<notin> set validMethods then Inl [ErrTokenSignatureInvalid]
           else (case ss of
                   Undecodable \<Rightarrow> Inl [ErrTokenMalformed]
                 | Decoded signature \<Rightarrow>
                     (if signature \<noteq> mac key (h, j) then Inl [ErrTokenSignatureInvalid]
                      else (let claims = unmarshal_Claims j in
                            case jwt_Validate now claims of
                              [] \<Rightarrow> Inr \<lparr>Token_Claims = CustomClaims claims, Valid = True\<rparr>
                            | e # es \<Rightarrow> Inl (e # es))))))"

subsection \<open>The text of the signature segment, and strings in JSON\<close>

text \<open>
  The signature segment of a token string is base64url text without padding.  The
  library encodes it with \<^verbatim>\<open>base64.RawURLEncoding\<close> and, since the repository builds its
  parser with \<^verbatim>\<open>WithValidMethods\<close> only, decodes it with the same encoding in its lenient
  mode.  Go's decoder skips carriage returns and line feeds, refuses a character
  outside the alphabet, refuses a final group of one character, and does not look at
  the bits of a final group of two or three characters that belong to no byte.
\<close>

definition encodeURL :: string where
  "encodeURL = ''ABCDEFGHIJKLMNOPQRSTUVWXYZabcdefghijklmnopqrstuvwxyz0123456789-_''"

fun index_in :: "'a list \<Rightarrow> 'a \<Rightarrow> nat option" where
  "index_in [] c = None"
| "index_in (x # xs) c = (if x = c then Some 0 else map_option Suc (index_in xs c))"

text \<open>Bytes to six-bit values: three bytes give four values, a rest of one or two
  bytes gives two or three values whose last is filled with zero bits.\<close>

fun encode_groups :: "nat list \<Rightarrow> nat list" where
  "encode_groups (x # y # z # rest) =
     [x div 4, (x mod 4) * 16 + y div 16, (y mod 16) * 4 + z div 64, z mod 64]
       @ encode_groups rest"
| "encode_groups [x, y] = [x div 4, (x mod 4) * 16 + y div 16, (y mod 16) * 4]"
| "encode_groups [x] = [x div 4, (x mod 4) * 16]"
| "encode_groups [] = []"

text \<open>Six-bit values to bytes, leniently: the low bits of the last value of a final
  group of two or three are dropped.\<close>

fun decode_groups :: "nat list \<Rightarrow> nat list option" where
  "decode_groups (a # b # c # d # rest) =
     map_option (\<lambda>bytes. [a * 4 + b div 16, (b mod 16) * 16 + c div 4, (c mod 4) * 64 + d]
                            @ bytes)
       (decode_groups rest)"
| "decode_groups [a, b, c] = Some [a * 4 + b div 16, (b mod 16) * 16 + c div 4]"
| "decode_groups [a, b] = Some [a * 4 + b div 16]"
| "decode_groups [a] = None"
| "decode_groups [] = Some []"

fun sextets :: "string \<Rightarrow> nat list option" where
  "sextets [] = Some []"
| "sextets (c # cs) =
     (case index_in encodeURL c of
        None \<Rightarrow> None
      | Some v \<Rightarrow> map_option ((#) v) (sextets cs))"

definition EncodeSegment :: "string \<Rightarrow> string" where
  "EncodeSegment seg = map (\<lambda>v. encodeURL ! v) (encode_groups (map of_char seg))"

definition DecodeSegment :: "string \<Rightarrow> string option" where
  "DecodeSegment seg =
     (case sextets (filter (\<lambda>c. c \<noteq> CHR 0x0D \<and> c \<noteq> CHR 0x0A) seg) of
        None \<Rightarrow> None
      | Some vs \<Rightarrow> map_option (map char_of) (decode_groups vs))"

text \<open>
  A token string with the signature segment as text; the header and the claims
  segment are still represented by what they decode to.
\<close>

datatype token_string =
    NotThreeParts
  | Parts "Header segment" "ClaimsJSON segment" string

definition decode_signature :: "token_string \<Rightarrow> token_text" where
  "decode_signature tokenString =
     (case tokenString of
        NotThreeParts \<Rightarrow> NotThreeSegments
      | Parts hs cs seg \<Rightarrow>
          Segments hs cs (case DecodeSegment seg of
                            None \<Rightarrow> Undecodable
                          | Some signature \<Rightarrow> Decoded signature))"

text \<open>
  The signer and the parser of the library on token strings.  The parser decodes the
  signature segment after it has checked the method; \<open>jwt_ParseWithClaims\<close> looks at
  the decoded signature at that point only, so decoding it beforehand gives the same
  results.
\<close>

definition jwt_SignedString_base64 ::
  "mac_fn \<Rightarrow> string \<Rightarrow> string \<Rightarrow> Claims \<Rightarrow> go_error + token_string" where
  "jwt_SignedString_base64 mac method key claims =
     (let h = \<lparr>alg = method, token_typ = ''JWT''\<rparr>;
          j = marshal_Claims claims
      in Inr (Parts (Decoded h) (Decoded j) (EncodeSegment (mac key (h, j)))))"

definition jwt_ParseWithClaims_base64 ::
  "mac_fn \<Rightarrow> Time \<Rightarrow> string list \<Rightarrow> string \<Rightarrow> token_string \<Rightarrow> jwt_error list + Token" where
  "jwt_ParseWithClaims_base64 mac now validMethods key tokenString =
     jwt_ParseWithClaims mac now validMethods key (decode_signature tokenString)"

section \<open>Package middleware: the JWT gate\<close>

text \<open>
  \<^verbatim>\<open>strings.SplitN(s, sep, 2)\<close> for a separator of one byte: the string itself when the
  separator does not occur, otherwise the text before its first occurrence and the
  text after it.
\<close>

definition SplitN2 :: "string \<Rightarrow> char \<Rightarrow> string list" where
  "SplitN2 s sep =
     (if sep \<in> set s
      then [takeWhile (\<lambda>c. c \<noteq> sep) s, tl (dropWhile (\<lambda>c. c \<noteq> sep) s)]
      else [s])"

text \<open>The lower-case form of an ASCII capital; any other byte is left as it is.\<close>

definition ascii_lower :: "char \<Rightarrow> char" where
  "ascii_lower c =
     (case map_of (zip ''ABCDEFGHIJKLMNOPQRSTUVWXYZ'' ''abcdefghijklmnopqrstuvwxyz'') c of
        None \<Rightarrow> c
      | Some l \<Rightarrow> l)"

text \<open>
  \<^verbatim>\<open>strings.EqualFold(s, t)\<close> where \<open>t\<close> is the ASCII word \<^verbatim>\<open>Bearer\<close>, the only way the
  repository calls it.  None of the letters of that word has a case variant outside
  ASCII, so the two strings are equal under simple case folding exactly when they are
  equal after lowering the ASCII capitals.
\<close>

definition EqualFold :: "string \<Rightarrow> string \<Rightarrow> bool" where
  "EqualFold s t = (map ascii_lower s = map ascii_lower t)"

definition BearerScheme :: string where "BearerScheme = ''Bearer''"
definition MemberIDKey :: string where "MemberIDKey = ''member_id''"
definition MemberEmailKey :: string where "MemberEmailKey = ''member_email''"

text \<open>
  The part of \<^verbatim>\<open>*gin.Context\<close> that the middleware touches: the value of the request
  header \<^verbatim>\<open>Authorization\<close> (\<^verbatim>\<open>GetHeader\<close> returns the empty string when the header is
  absent), the keys set by \<^verbatim>\<open>c.Set\<close>, the response written by \<^verbatim>\<open>c.JSON\<close> (status and
  body), and whether \<^verbatim>\<open>c.Abort()\<close> has stopped the chain of handlers.
\<close>

record Context =
  Authorization :: string
  Keys :: "string \<rightharpoonup> string"
  Response :: "(int \<times> ErrorResponse) option"
  Aborted :: bool

text \<open>
  \<^verbatim>\<open>
  func extractToken(c *gin.Context) (string, error) {
      authHeader := c.GetHeader(AuthorizationHeader)
      if authHeader == "" { return "", ErrMissingToken }
      parts := strings.SplitN(authHeader, " ", 2)
      if len(parts) != 2 || !strings.EqualFold(parts[0], BearerScheme) {
          return "", ErrInvalidToken
      }
      return parts[1], nil
  }
  \<close>
\<close>

definition extractToken :: "Context \<Rightarrow> go_error + string" where
  "extractToken c =
     (let authHeader = Authorization c in
      if authHeader = [] then Inl middleware_ErrMissingToken
      else (case SplitN2 authHeader CHR 0x20 of
              [scheme, tok] \<Rightarrow>
                (if \<not> EqualFold scheme BearerScheme then Inl middleware_ErrInvalidToken
                 else Inr tok)
            | _ \<Rightarrow> Inl middleware_ErrInvalidToken))"

text \<open>
  \<^verbatim>\<open>
  func mapTokenError(err error) error {
      switch {
      case errors.Is(err, token.ErrExpiredToken):  return ErrExpiredToken
      case errors.Is(err, token.ErrInvalidClaims): return ErrInvalidClaims
      default:                                     return ErrInvalidToken
      }
  }
  \<close>
\<close>

definition mapTokenError :: "go_error \<Rightarrow> go_error" where
  "mapTokenError err =
     (if errors_Is err token_ErrExpiredToken then middleware_ErrExpiredToken
      else if errors_Is err token_ErrInvalidClaims then middleware_ErrInvalidClaims
      else middleware_ErrInvalidToken)"

text \<open>
  \<^verbatim>\<open>handleJWTError\<close>: the registered response of the error, or the fallback
  \<^verbatim>\<open>AUTH-999\<close>; then \<^verbatim>\<open>c.Abort()\<close>.
\<close>

definition handleJWTError :: "registry \<Rightarrow> Context \<Rightarrow> go_error \<Rightarrow> Context" where
  "handleJWTError responses c err =
     (case ResolveDomainError responses (Some err) of
        (resp, True) \<Rightarrow> c\<lparr>Response := Some (Status resp, resp), Aborted := True\<rparr>
      | (resp, False) \<Rightarrow>
          c\<lparr>Response := Some (StatusUnauthorized,
                 \<lparr>Status = StatusUnauthorized, Code = ''AUTH-999'', Message = msg_auth_failed\<rparr>),
            Aborted := True\<rparr>)"

text \<open>
  The handler returned by \<^verbatim>\<open>JWT(cfg)\<close>.  Its token manager is built from the
  configuration; \<open>validate\<close> is the \<^verbatim>\<open>ValidateToken\<close> of that manager.  \<open>next\<close> is the
  rest of the chain, which \<^verbatim>\<open>c.Next()\<close> runs.  The calls of the logger are not modelled.
  \<^verbatim>\<open>
  token, err := extractToken(c)
  if err != nil { handleJWTError(c, err); return }
  claims, err := tokenManager.ValidateToken(token)
  if err != nil { handleJWTError(c, mapTokenError(err)); return }
  c.Set(sharedContext.MemberIDKey, claims.MemberID)
  c.Set(sharedContext.MemberEmailKey, claims.Email)
  c.Next()
  \<close>
\<close>

definition JWT ::
  "(string \<Rightarrow> go_error + Claims) \<Rightarrow> registry \<Rightarrow> (Context \<Rightarrow> Context) \<Rightarrow> Context \<Rightarrow> Context" where
  "JWT validate responses next c =
     (case extractToken c of
        Inl err \<Rightarrow> handleJWTError responses c err
      | Inr tok \<Rightarrow>
          (case validate tok of
             Inl err \<Rightarrow> handleJWTError responses c (mapTokenError err)
           | Inr claims \<Rightarrow>
               next (c\<lparr>Keys := ((Keys c)(MemberIDKey \<mapsto> MemberID claims))
                                 (MemberEmailKey \<mapsto> Claims.Email claims)\<rparr>)))"

section \<open>Example values\<close>

text \<open>
  Concrete values on which the theorems below are instantiated: a table with one
  member, stand-ins for the two bcrypt functions (the hash of a password is the
  password behind a fixed prefix), the default behaviour of
  \<^verbatim>\<open>testutil.MockTokenManager\<close>, a token manager with an access lifetime of fifteen
  minutes, and stand-ins for the MAC.
\<close>

definition example_member :: Member where
  "example_member =
     \<lparr>Member.ID = 1, Member.Email = ''a@x.com'', Member.Name = ''A'',
      Member.PhoneNumber = ''010-1234-5678'', Member.Password = ''$2a$password1''\<rparr>"

definition example_empty_db :: DB where
  "example_empty_db = \<lparr>rows = [], next_id = 1, fault = None\<rparr>"

definition example_db :: DB where
  "example_db = \<lparr>rows = [example_member], next_id = 2, fault = None\<rparr>"

definition example_signup :: SignupRequest where
  "example_signup =
     \<lparr>SignupRequest.Name = ''A'', SignupRequest.Email = ''a@x.com'',
      SignupRequest.PhoneNumber = ''010-1234-5678'', SignupRequest.Password = ''password1''\<rparr>"

definition example_GenerateFromPassword :: "string \<Rightarrow> go_error + string" where
  "example_GenerateFromPassword password = Inr (''$2a$'' @ password)"

definition example_CompareHashAndPassword :: "string \<Rightarrow> string \<Rightarrow> go_error option" where
  "example_CompareHashAndPassword hashedPassword password =
     (if hashedPassword = ''$2a$'' @ password then None
      else Some (Sentinel ''crypto/bcrypt: hashedPassword is not the hash of the given password''))"

definition MockTokenManager :: "string Manager" where
  "MockTokenManager =
     \<lparr>Manager_GenerateAccessToken = (\<lambda>memberID email. Inr ''mock-access-token''),
      Manager_GenerateRefreshToken = (\<lambda>memberID email. Inr ''mock-refresh-token'')\<rparr>"

definition example_manager :: JWTManager where
  "example_manager =
     \<lparr>secret = ''secret'', issuer = ''pray-together'',
      accessExpiry = 900000000000, refreshExpiry = 604800000000000\<rparr>"

definition example_mac :: mac_fn where
  "example_mac key msg = key @ json_member_id (snd msg) @ json_email (snd msg)"

text \<open>A stand-in for the MAC with an output of 32 bytes, the length of HMAC-SHA256.\<close>

definition example_mac32 :: mac_fn where
  "example_mac32 key msg =
     take 32 (key @ json_member_id (snd msg) @ json_email (snd msg) @ replicate 32 CHR ''#'')"

text \<open>A request context with the given \<^verbatim>\<open>Authorization\<close> header and nothing else.\<close>

definition example_context :: "string \<Rightarrow> Context" where
  "example_context header =
     \<lparr>Authorization = header, Keys = Map.empty, Response = None, Aborted = False\<rparr>"

definition example_claims :: Claims where
  "example_claims =
     \<lparr>MemberID = ''1'', Claims.Email = ''a@x.com'', TokenType = ''access'',
      Claims.ExpiresAt = 901, Claims.IssuedAt = 1,
      Registered = \<lparr>Issuer = ''pray-together'', Subject = [],
                     RegisteredClaims.ExpiresAt = None, NotBefore = None,
                     RegisteredClaims.IssuedAt = None\<rparr>\<rparr>"

section \<open>Properties of the masking\<close>

lemma Split_not_Nil: "Split s sep \<noteq> []"
  by (induction s) (auto split: list.splits)

lemma length_Split: "length (Split s sep) = Suc (count_list s sep)"
proof (induction s)
  case Nil
  show ?case by simp
next
  case (Cons c cs)
  show ?case
  proof (cases "Split cs sep")
    case Nil
    with Split_not_Nil show ?thesis by blast
  next
    case (Cons p ps)
    with Cons.IH show ?thesis by simp
  qed
qed

lemma Split_no_sep: "sep \<notin> set s \<Longrightarrow> Split s sep = [s]"
  by (induction s) auto

lemma case_not_two_parts:
  "length parts \<noteq> 2 \<Longrightarrow> (case parts of [u, d] \<Rightarrow> f u d | _ \<Rightarrow> g) = g"
  by (auto split: list.splits)

text \<open>
  Claim C8.  The documented example \<^verbatim>\<open>john.doe@gmail.com\<close> is masked to
  \<^verbatim>\<open>j***@gmail.com\<close>, the empty string is returned unchanged, and every non-empty input
  whose number of \<^verbatim>\<open>@\<close> bytes is not exactly one is replaced by the fixed placeholder
  \<^verbatim>\<open>***@***\<close>.
\<close>

theorem MaskEmail_examples_and_placeholder:
  "MaskEmail ''john.doe@gmail.com'' = Inr ''j***@gmail.com''
   \<and> MaskEmail '''' = Inr ''''
   \<and> (\<forall>email. email \<noteq> [] \<and> count_list email CHR ''@'' \<noteq> 1
         \<longrightarrow> MaskEmail email = Inr ''***@***'')"
proof (intro conjI allI impI)
  show "MaskEmail ''john.doe@gmail.com'' = Inr ''j***@gmail.com''"
    by (simp add: MaskEmail_def slice_to_def)
  show "MaskEmail '''' = Inr ''''"
    by (simp add: MaskEmail_def)
next
  fix email :: string
  assume a: "email \<noteq> [] \<and> count_list email CHR ''@'' \<noteq> 1"
  then have "length (Split email CHR ''@'') \<noteq> 2"
    by (simp add: length_Split)
  then show "MaskEmail email = Inr ''***@***''"
    using a by (simp add: MaskEmail_def case_not_two_parts)
qed

theorem MaskEmail_examples_and_placeholder_witness:
  "''a@b@c'' \<noteq> [] \<and> count_list ''a@b@c'' CHR ''@'' \<noteq> 1
   \<and> MaskEmail ''a@b@c'' = Inr ''***@***''
   \<and> ''nobody'' \<noteq> [] \<and> MaskEmail ''nobody'' = Inr ''***@***''"
  using MaskEmail_examples_and_placeholder by simp

text \<open>
  Claim C10.  An input with exactly one \<^verbatim>\<open>@\<close> and an empty local part, that is
  \<^verbatim>\<open>@\<close> followed by a domain without \<^verbatim>\<open>@\<close>, is masked to \<^verbatim>\<open>***@\<close> followed by the
  domain; and the slice \<^verbatim>\<open>username[:1]\<close> is never taken out of range: on every input
  \<open>MaskEmail\<close> returns a string and does not panic.
\<close>

theorem MaskEmail_empty_local_part_total:
  "(\<forall>domain. CHR ''@'' \<notin> set domain
       \<longrightarrow> MaskEmail (CHR ''@'' # domain) = Inr (''***@'' @ domain))
   \<and> (\<forall>email. \<exists>masked. MaskEmail email = Inr masked)"
proof (intro conjI allI impI)
  fix domain :: string
  assume "CHR ''@'' \<notin> set domain"
  then show "MaskEmail (CHR ''@'' # domain) = Inr (''***@'' @ domain)"
    by (simp add: MaskEmail_def Split_no_sep)
next
  fix email :: string
  show "\<exists>masked. MaskEmail email = Inr masked"
    by (auto simp: MaskEmail_def slice_to_def Suc_le_eq split: list.splits)
qed

theorem MaskEmail_empty_local_part_total_witness:
  "CHR ''@'' \<notin> set ''gmail.com''
   \<and> MaskEmail ''@gmail.com'' = Inr ''***@gmail.com''"
  using MaskEmail_empty_local_part_total by simp

section \<open>Properties of the registry\<close>

lemma errors_As_DomainError_first:
  "errors_As_DomainError err =
     (case find (\<lambda>e. Info e \<noteq> None) (chain err) of None \<Rightarrow> None | Some d \<Rightarrow> Info d)"
  by (induction err) simp_all

lemma errors_Is_chain: "errors_Is err target \<longleftrightarrow> target \<in> set (chain err)"
  by (induction err) auto

lemma Resolve_nil: "ResolveDomainError responses None = (ErrorResponse_zero, False)"
  by (simp add: ResolveDomainError_def)

lemma Resolve_registered:
  assumes "find (\<lambda>e. Info e \<noteq> None) (chain err) = Some d"
    and "Info d = Some info" and "responses info = Some resp"
  shows "ResolveDomainError responses (Some err) = (resp, True)"
  using assms by (simp add: ResolveDomainError_def errors_As_DomainError_first)

lemma Resolve_unregistered:
  assumes "find (\<lambda>e. Info e \<noteq> None) (chain err) = Some d"
    and "Info d = Some info" and "responses info = None"
  shows "ResolveDomainError responses (Some err) = (ErrorResponse_zero, False)"
  using assms by (simp add: ResolveDomainError_def errors_As_DomainError_first)

lemma Resolve_non_domain:
  assumes "find (\<lambda>e. Info e \<noteq> None) (chain err) = None"
  shows "ResolveDomainError responses (Some err) = (ErrorResponse_zero, False)"
  using assms by (simp add: ResolveDomainError_def errors_As_DomainError_first)

lemma RespondError_of_not_found:
  "ResolveDomainError responses (Some err) = (resp, False) \<Longrightarrow>
     RespondError_of responses err = InternalServerError"
  by (simp add: RespondError_of_def)

lemma RespondError_of_found:
  "ResolveDomainError responses (Some err) = (resp, True) \<Longrightarrow>
     RespondError_of responses err = resp"
  by (simp add: RespondError_of_def)

lemmas errInfo_defs =
  memberAlreadyExists_def memberNotFound_def incorrectEmailPassword_def
  missingToken_def invalidToken_def expiredToken_def invalidClaims_def

lemmas init_defs =
  domainErrorResponses_def middleware_init_def auth_init_def member_init_def
  RegisterDomainErrorResponse_def

lemma registered_incorrectEmailPassword:
  "domainErrorResponses incorrectEmailPassword =
     Some \<lparr>Status = 400, Code = ''AUTH-003'', Message = msg_incorrect_email_password\<rparr>"
  by (simp add: init_defs errInfo_defs StatusBadRequest_def)

lemma registered_memberAlreadyExists:
  "domainErrorResponses memberAlreadyExists =
     Some \<lparr>Status = 409, Code = ''MEMBER-002'', Message = msg_member_exists\<rparr>"
  by (simp add: init_defs errInfo_defs StatusConflict_def)


lemma registered_token_errors:
  "domainErrorResponses missingToken = Some login_required"
  "domainErrorResponses invalidToken = Some login_required"
  "domainErrorResponses expiredToken = Some login_required"
  "domainErrorResponses invalidClaims = Some login_required"
  by (simp_all add: init_defs errInfo_defs)

text \<open>
  Claim C5.  \<open>ResolveDomainError\<close> walks the chain of the error for the first
  domain error.  When there is one and its identifier has a registered response, that
  response is returned with \<open>found = True\<close>.  When its identifier is not registered,
  when no error of the chain is a domain error, and when the error is \<^verbatim>\<open>nil\<close>, the
  result is \<open>found = False\<close> with the zero response, and the handlers then send the
  generic \<open>InternalServerError\<close> instead of anything taken from the error.
\<close>

theorem ResolveDomainError_resolution_and_fallback:
  "(\<forall>err d info resp.
      find (\<lambda>e. Info e \<noteq> None) (chain err) = Some d \<and> Info d = Some info
        \<and> responses info = Some resp
      \<longrightarrow> ResolveDomainError responses (Some err) = (resp, True)
          \<and> RespondError_of responses err = resp)
   \<and> (\<forall>err d info.
      find (\<lambda>e. Info e \<noteq> None) (chain err) = Some d \<and> Info d = Some info
        \<and> responses info = None
      \<longrightarrow> ResolveDomainError responses (Some err) = (ErrorResponse_zero, False)
          \<and> RespondError_of responses err = InternalServerError)
   \<and> (\<forall>err.
      find (\<lambda>e. Info e \<noteq> None) (chain err) = None
      \<longrightarrow> ResolveDomainError responses (Some err) = (ErrorResponse_zero, False)
          \<and> RespondError_of responses err = InternalServerError)
   \<and> ResolveDomainError responses None = (ErrorResponse_zero, False)"
proof (intro conjI allI impI)
  fix err d info resp
  assume a: "find (\<lambda>e. Info e \<noteq> None) (chain err) = Some d \<and> Info d = Some info
               \<and> responses info = Some resp"
  then show r: "ResolveDomainError responses (Some err) = (resp, True)"
    by (simp add: Resolve_registered)
  then show "RespondError_of responses err = resp"
    by (rule RespondError_of_found)
next
  fix err d info
  assume a: "find (\<lambda>e. Info e \<noteq> None) (chain err) = Some d \<and> Info d = Some info
               \<and> responses info = None"
  then show r: "ResolveDomainError responses (Some err) = (ErrorResponse_zero, False)"
    by (simp add: Resolve_unregistered)
  then show "RespondError_of responses err = InternalServerError"
    by (rule RespondError_of_not_found)
next
  fix err
  assume a: "find (\<lambda>e. Info e \<noteq> None) (chain err) = None"
  then show r: "ResolveDomainError responses (Some err) = (ErrorResponse_zero, False)"
    by (rule Resolve_non_domain)
  then show "RespondError_of responses err = InternalServerError"
    by (rule RespondError_of_not_found)
next
  show "ResolveDomainError responses None = (ErrorResponse_zero, False)"
    by (rule Resolve_nil)
qed

theorem ResolveDomainError_resolution_and_fallback_witness:
  "ResolveDomainError domainErrorResponses
      (Some (Wrapf ''create member: '' (Wrapf ''error '' ErrMemberAlreadyExists)))
     = (\<lparr>Status = 409, Code = ''MEMBER-002'', Message = msg_member_exists\<rparr>, True)
   \<and> ResolveDomainError domainErrorResponses
        (Some (Wrapf ''error '' (NewDomainError ''NOT_REGISTERED'')))
     = (ErrorResponse_zero, False)
   \<and> RespondError_of domainErrorResponses
        (Wrapf ''error '' (NewDomainError ''NOT_REGISTERED'')) = InternalServerError
   \<and> ResolveDomainError domainErrorResponses
        (Some (Wrapf ''hash password: '' (Sentinel ''bcrypt: password too long'')))
     = (ErrorResponse_zero, False)
   \<and> RespondError_of domainErrorResponses
        (Wrapf ''hash password: '' (Sentinel ''bcrypt: password too long''))
     = InternalServerError"
proof -
  let ?R = domainErrorResponses
  let ?e1 = "Wrapf ''create member: '' (Wrapf ''error '' ErrMemberAlreadyExists)"
  let ?e2 = "Wrapf ''error '' (NewDomainError ''NOT_REGISTERED'')"
  let ?e3 = "Wrapf ''hash password: '' (Sentinel ''bcrypt: password too long'')"
  have f1: "find (\<lambda>e. Info e \<noteq> None) (chain ?e1) = Some ErrMemberAlreadyExists
            \<and> Info ErrMemberAlreadyExists = Some memberAlreadyExists
            \<and> ?R memberAlreadyExists
                = Some \<lparr>Status = 409, Code = ''MEMBER-002'', Message = msg_member_exists\<rparr>"
    by (simp add: ErrMemberAlreadyExists_def NewDomainError_def registered_memberAlreadyExists)
  have f2: "find (\<lambda>e. Info e \<noteq> None) (chain ?e2) = Some (NewDomainError ''NOT_REGISTERED'')
            \<and> Info (NewDomainError ''NOT_REGISTERED'') = Some ''NOT_REGISTERED''
            \<and> ?R ''NOT_REGISTERED'' = None"
    by (simp add: NewDomainError_def init_defs errInfo_defs)
  have f3: "find (\<lambda>e. Info e \<noteq> None) (chain ?e3) = None"
    by simp
  note T = ResolveDomainError_resolution_and_fallback [of ?R]
  note t1 = T [THEN conjunct1, rule_format, OF f1]
  note t2 = T [THEN conjunct2, THEN conjunct1, rule_format, OF f2]
  note t3 = T [THEN conjunct2, THEN conjunct2, THEN conjunct1, rule_format, OF f3]
  from t1 have c1: "ResolveDomainError ?R (Some ?e1)
      = (\<lparr>Status = 409, Code = ''MEMBER-002'', Message = msg_member_exists\<rparr>, True)"
    by (rule conjunct1)
  from t2 have c2: "ResolveDomainError ?R (Some ?e2) = (ErrorResponse_zero, False)"
    by (rule conjunct1)
  from t2 have c3: "RespondError_of ?R ?e2 = InternalServerError"
    by (rule conjunct2)
  from t3 have c4: "ResolveDomainError ?R (Some ?e3) = (ErrorResponse_zero, False)"
    by (rule conjunct1)
  from t3 have c5: "RespondError_of ?R ?e3 = InternalServerError"
    by (rule conjunct2)
  from c1 c2 c3 c4 c5 show ?thesis
    by (intro conjI)
qed

section \<open>Properties of the repository and the services\<close>


lemma errors_Is_RecordNotFound [simp]: "errors_Is ErrRecordNotFound ErrRecordNotFound"
  by (simp add: ErrRecordNotFound_def)

lemma first_by_id_None: "first_by_id ms = None \<longleftrightarrow> ms = []"
  by (cases ms) (simp_all add: first_by_id_def)


lemma FindByEmail_miss:
  "fault db = None \<Longrightarrow> filter (\<lambda>m. Member.Email m = e) (rows db) = [] \<Longrightarrow>
     FindByEmail db e = Inl ErrRecordNotFound"
  by (simp add: FindByEmail_def first_by_id_def)



lemma Login_unknown_email:
  assumes "fault db = None"
    and "filter (\<lambda>m. Member.Email m = LoginRequest.Email request) (rows db) = []"
  shows "Login cmp tm db request = Inl (Wrapf ''error '' ErrInCorrectEmailPassword)"
  using assms by (simp add: Login_def FindByEmail_miss)

lemma Login_wrong_password:
  assumes "FindByEmail db (LoginRequest.Email request) = Inr member"
    and "cmp (Member.Password member) (LoginRequest.Password request) = Some mismatch"
  shows "Login cmp tm db request = Inl (Wrapf ''error '' ErrInCorrectEmailPassword)"
  using assms by (simp add: Login_def)

lemma Resolve_incorrect_email_password:
  "ResolveDomainError domainErrorResponses (Some (Wrapf ''error '' ErrInCorrectEmailPassword))
     = (\<lparr>Status = 400, Code = ''AUTH-003'', Message = msg_incorrect_email_password\<rparr>, True)"
  by (simp add: ResolveDomainError_def ErrInCorrectEmailPassword_def NewDomainError_def
      registered_incorrectEmailPassword)

lemma Resolve_member_exists:
  "ResolveDomainError domainErrorResponses (Some (Wrapf ''error '' ErrMemberAlreadyExists))
     = (\<lparr>Status = 409, Code = ''MEMBER-002'', Message = msg_member_exists\<rparr>, True)"
  by (simp add: ResolveDomainError_def ErrMemberAlreadyExists_def NewDomainError_def
      registered_memberAlreadyExists)


text \<open>
  Claim C3.  A login with an e-mail address that has no row, and a login with a
  registered address whose stored hash does not match the password, both fail, and
  both errors resolve to the same response: status 400 with code \<^verbatim>\<open>AUTH-003\<close>.  The
  body the handler sends is the same in the two cases.
\<close>

theorem Login_anti_enumeration:
  assumes "fault db1 = None"
    and "filter (\<lambda>m. Member.Email m = LoginRequest.Email r1) (rows db1) = []"
    and "FindByEmail db2 (LoginRequest.Email r2) = Inr member"
    and "cmp (Member.Password member) (LoginRequest.Password r2) = Some mismatch"
  shows "\<exists>e1 e2.
      Login cmp tm db1 r1 = Inl e1 \<and> Login cmp tm db2 r2 = Inl e2
      \<and> ResolveDomainError domainErrorResponses (Some e1)
          = (\<lparr>Status = 400, Code = ''AUTH-003'', Message = msg_incorrect_email_password\<rparr>, True)
      \<and> ResolveDomainError domainErrorResponses (Some e2)
          = (\<lparr>Status = 400, Code = ''AUTH-003'', Message = msg_incorrect_email_password\<rparr>, True)
      \<and> RespondError_of domainErrorResponses e1 = RespondError_of domainErrorResponses e2"
proof -
  let ?e = "Wrapf ''error '' ErrInCorrectEmailPassword"
  have l1: "Login cmp tm db1 r1 = Inl ?e"
    using assms(1,2) by (rule Login_unknown_email)
  have l2: "Login cmp tm db2 r2 = Inl ?e"
    using assms(3,4) by (rule Login_wrong_password)
  from l1 l2 Resolve_incorrect_email_password show ?thesis
    by (intro exI [of _ ?e] conjI) simp_all
qed

lemma Signup_existing:
  assumes "fault db = None"
    and "filter (\<lambda>m. Member.Email m = SignupRequest.Email request) (rows db) \<noteq> []"
  shows "Signup hash db request = (Some (Wrapf ''error '' ErrMemberAlreadyExists), db)"
  using assms by (simp add: Signup_def WithTransaction_def IsExist_def)

lemma Signup_success:
  assumes "Signup hash db request = (None, db')"
  shows "fault db = None
     \<and> filter (\<lambda>m. Member.Email m = SignupRequest.Email request) (rows db) = []
     \<and> (\<exists>hashed. hash (SignupRequest.Password request) = Inr hashed
          \<and> db' = db\<lparr>rows := rows db @
                        [(NewMember (SignupRequest.Name request) (SignupRequest.Email request)
                            (SignupRequest.PhoneNumber request) hashed)\<lparr>Member.ID := next_id db\<rparr>],
                      next_id := next_id db + 1\<rparr>)"
  using assms
  by (auto simp: Signup_def WithTransaction_def IsExist_def Create_def Let_def
      split: option.splits sum.splits if_splits prod.splits)

text \<open>
  Claim C4.  On a working connection, a signup whose e-mail address already has a
  row fails with an error that wraps \<open>ErrMemberAlreadyExists\<close>, which resolves to
  409 with code \<^verbatim>\<open>MEMBER-002\<close>, and the table is returned as it was.  After a signup
  that succeeded, a second signup with the same address fails in that way, and the
  table then holds exactly one row with that address.
\<close>

theorem Signup_duplicate_email:
  "(fault db = None
      \<and> filter (\<lambda>m. Member.Email m = SignupRequest.Email request) (rows db) \<noteq> []
    \<longrightarrow> Signup hash db request = (Some (Wrapf ''error '' ErrMemberAlreadyExists), db)
        \<and> errors_Is (Wrapf ''error '' ErrMemberAlreadyExists) ErrMemberAlreadyExists
        \<and> ResolveDomainError domainErrorResponses
             (Some (Wrapf ''error '' ErrMemberAlreadyExists))
           = (\<lparr>Status = 409, Code = ''MEMBER-002'', Message = msg_member_exists\<rparr>, True))
   \<and> (\<forall>r1 r2 db1.
        Signup hash db r1 = (None, db1) \<and> SignupRequest.Email r2 = SignupRequest.Email r1
        \<longrightarrow> Signup hash' db1 r2 = (Some (Wrapf ''error '' ErrMemberAlreadyExists), db1)
            \<and> length (filter (\<lambda>m. Member.Email m = SignupRequest.Email r1) (rows db1)) = 1)"
proof (intro conjI allI impI)
  assume a: "fault db = None
      \<and> filter (\<lambda>m. Member.Email m = SignupRequest.Email request) (rows db) \<noteq> []"
  then show "Signup hash db request = (Some (Wrapf ''error '' ErrMemberAlreadyExists), db)"
    by (simp add: Signup_existing)
  show "errors_Is (Wrapf ''error '' ErrMemberAlreadyExists) ErrMemberAlreadyExists"
    by (simp add: ErrMemberAlreadyExists_def NewDomainError_def)
  show "ResolveDomainError domainErrorResponses (Some (Wrapf ''error '' ErrMemberAlreadyExists))
      = (\<lparr>Status = 409, Code = ''MEMBER-002'', Message = msg_member_exists\<rparr>, True)"
    by (rule Resolve_member_exists)
next
  fix r1 r2 :: SignupRequest and db1 :: DB
  assume a: "Signup hash db r1 = (None, db1)
      \<and> SignupRequest.Email r2 = SignupRequest.Email r1"
  from a Signup_success [of hash db r1 db1] obtain hashed where
    f: "fault db = None"
    and n: "filter (\<lambda>m. Member.Email m = SignupRequest.Email r1) (rows db) = []"
    and d: "db1 = db\<lparr>rows := rows db @
                  [(NewMember (SignupRequest.Name r1) (SignupRequest.Email r1)
                      (SignupRequest.PhoneNumber r1) hashed)\<lparr>Member.ID := next_id db\<rparr>],
                next_id := next_id db + 1\<rparr>"
    by blast
  from d n show one: "length (filter (\<lambda>m. Member.Email m = SignupRequest.Email r1) (rows db1)) = 1"
    by (simp add: NewMember_def)
  from d f have f1: "fault db1 = None" by simp
  from one have "filter (\<lambda>m. Member.Email m = SignupRequest.Email r2) (rows db1) \<noteq> []"
    using a by auto
  with f1 show "Signup hash' db1 r2 = (Some (Wrapf ''error '' ErrMemberAlreadyExists), db1)"
    by (rule Signup_existing)
qed

theorem Login_anti_enumeration_witness:
  "fault example_empty_db = None
   \<and> filter (\<lambda>m. Member.Email m = ''nobody@x.com'') (rows example_empty_db) = []
   \<and> FindByEmail example_db ''a@x.com'' = Inr example_member
   \<and> example_CompareHashAndPassword (Member.Password example_member) ''wrongpass1'' \<noteq> None
   \<and> (\<exists>e1 e2.
        Login example_CompareHashAndPassword MockTokenManager example_empty_db
           \<lparr>LoginRequest.Email = ''nobody@x.com'', LoginRequest.Password = ''password1''\<rparr>
          = Inl e1
        \<and> Login example_CompareHashAndPassword MockTokenManager example_db
           \<lparr>LoginRequest.Email = ''a@x.com'', LoginRequest.Password = ''wrongpass1''\<rparr>
          = Inl e2
        \<and> ResolveDomainError domainErrorResponses (Some e1)
            = (\<lparr>Status = 400, Code = ''AUTH-003'', Message = msg_incorrect_email_password\<rparr>,
               True)
        \<and> ResolveDomainError domainErrorResponses (Some e2)
            = (\<lparr>Status = 400, Code = ''AUTH-003'', Message = msg_incorrect_email_password\<rparr>,
               True)
        \<and> RespondError_of domainErrorResponses e1 = RespondError_of domainErrorResponses e2)"
proof -
  let ?r1 = "\<lparr>LoginRequest.Email = ''nobody@x.com'', LoginRequest.Password = ''password1''\<rparr>"
  let ?r2 = "\<lparr>LoginRequest.Email = ''a@x.com'', LoginRequest.Password = ''wrongpass1''\<rparr>"
  let ?mismatch = "Sentinel ''crypto/bcrypt: hashedPassword is not the hash of the given password''"
  have h1: "fault example_empty_db = None"
    by (simp add: example_empty_db_def)
  have h2: "filter (\<lambda>m. Member.Email m = LoginRequest.Email ?r1) (rows example_empty_db) = []"
    by (simp add: example_empty_db_def)
  have h3: "FindByEmail example_db (LoginRequest.Email ?r2) = Inr example_member"
    by (simp add: FindByEmail_def example_db_def example_member_def first_by_id_def)
  have h4: "example_CompareHashAndPassword (Member.Password example_member)
              (LoginRequest.Password ?r2) = Some ?mismatch"
    by (simp add: example_CompareHashAndPassword_def example_member_def)
  note c = Login_anti_enumeration
    [where cmp = example_CompareHashAndPassword and tm = MockTokenManager
       and ?db1.0 = example_empty_db and ?r1.0 = ?r1 and ?db2.0 = example_db and ?r2.0 = ?r2
       and member = example_member and mismatch = ?mismatch, OF h1 h2 h3 h4]
  from h1 h2 h3 h4 c show ?thesis
    by simp
qed

theorem Signup_duplicate_email_witness:
  "fault example_db = None
   \<and> filter (\<lambda>m. Member.Email m = SignupRequest.Email example_signup) (rows example_db) \<noteq> []
   \<and> Signup example_GenerateFromPassword example_db example_signup
       = (Some (Wrapf ''error '' ErrMemberAlreadyExists), example_db)
   \<and> Signup example_GenerateFromPassword example_empty_db example_signup = (None, example_db)
   \<and> length (filter (\<lambda>m. Member.Email m = ''a@x.com'') (rows example_db)) = 1"
proof -
  have h1: "fault example_db = None
      \<and> filter (\<lambda>m. Member.Email m = SignupRequest.Email example_signup) (rows example_db) \<noteq> []"
    by (simp add: example_db_def example_member_def example_signup_def)
  have h2: "Signup example_GenerateFromPassword example_empty_db example_signup
        = (None, example_db)
      \<and> SignupRequest.Email example_signup = SignupRequest.Email example_signup"
    by (simp add: Signup_def WithTransaction_def IsExist_def Create_def NewMember_def
        example_GenerateFromPassword_def example_empty_db_def example_db_def
        example_member_def example_signup_def)
  note T1 = Signup_duplicate_email
    [where db = example_db and request = example_signup
       and hash = example_GenerateFromPassword and hash' = example_GenerateFromPassword]
  note T2 = Signup_duplicate_email
    [where db = example_empty_db and request = example_signup
       and hash = example_GenerateFromPassword and hash' = example_GenerateFromPassword]
  note c1 = T1 [THEN conjunct1, rule_format, OF h1]
  note c2 = T2 [THEN conjunct2, rule_format, OF h2]
  have e: "SignupRequest.Email example_signup = ''a@x.com''"
    by (simp add: example_signup_def)
  from h1 h2 c1 c2 e show ?thesis
    by simp
qed










section \<open>Properties of the JWT gate\<close>

lemma SplitN2_no_sep: "sep \<notin> set s \<Longrightarrow> SplitN2 s sep = [s]"
  by (simp add: SplitN2_def)

lemma SplitN2_at_first_sep:
  "sep \<notin> set a \<Longrightarrow> SplitN2 (a @ sep # b) sep = [a, b]"
  by (induction a) (auto simp: SplitN2_def)

lemma extractToken_missing:
  "Authorization c = [] \<Longrightarrow> extractToken c = Inl middleware_ErrMissingToken"
  by (simp add: extractToken_def)

lemma extractToken_one_part:
  "Authorization c \<noteq> [] \<Longrightarrow> CHR 0x20 \<notin> set (Authorization c) \<Longrightarrow>
     extractToken c = Inl middleware_ErrInvalidToken"
  by (simp add: extractToken_def SplitN2_no_sep)

lemma extractToken_two_parts:
  assumes "Authorization c = scheme @ CHR 0x20 # tok" and "CHR 0x20 \<notin> set scheme"
  shows "extractToken c =
     (if EqualFold scheme BearerScheme then Inr tok else Inl middleware_ErrInvalidToken)"
  using assms by (simp add: extractToken_def SplitN2_at_first_sep)

lemma token_sentinels_distinct:
  "token_ErrExpiredToken \<noteq> token_ErrInvalidClaims"
  "token_ErrExpiredToken \<noteq> token_ErrInvalidToken"
  "token_ErrInvalidClaims \<noteq> token_ErrInvalidToken"
  by (simp_all add: token_ErrExpiredToken_def token_ErrInvalidClaims_def
      token_ErrInvalidToken_def)

lemma mapTokenError_sentinels:
  "mapTokenError token_ErrExpiredToken = middleware_ErrExpiredToken"
  "mapTokenError token_ErrInvalidClaims = middleware_ErrInvalidClaims"
  "mapTokenError token_ErrInvalidToken = middleware_ErrInvalidToken"
  by (simp_all add: mapTokenError_def token_ErrExpiredToken_def token_ErrInvalidClaims_def
      token_ErrInvalidToken_def)

lemma Status_login_required: "Status login_required = 401"
  by (simp add: login_required_def StatusUnauthorized_def)

lemma handleJWTError_registered:
  assumes "err \<in> {middleware_ErrMissingToken, middleware_ErrInvalidToken,
                  middleware_ErrExpiredToken, middleware_ErrInvalidClaims}"
  shows "handleJWTError domainErrorResponses c err
       = c\<lparr>Response := Some (401, login_required), Aborted := True\<rparr>"
proof -
  from assms have "ResolveDomainError domainErrorResponses (Some err) = (login_required, True)"
    by (auto simp: ResolveDomainError_def NewDomainError_def registered_token_errors
        middleware_ErrMissingToken_def middleware_ErrInvalidToken_def
        middleware_ErrExpiredToken_def middleware_ErrInvalidClaims_def)
  then show ?thesis
    by (simp add: handleJWTError_def Status_login_required)
qed

lemma mapTokenError_range:
  "mapTokenError err \<in> {middleware_ErrMissingToken, middleware_ErrInvalidToken,
                          middleware_ErrExpiredToken, middleware_ErrInvalidClaims}"
  by (simp add: mapTokenError_def)

text \<open>
  Claim C6.  A request without \<^verbatim>\<open>Authorization\<close> header yields the domain error
  \<open>MissingToken\<close>.  A header without a space (one part), and a header whose text
  before the first space is not \<^verbatim>\<open>Bearer\<close> up to the case of the letters, yield
  \<open>InvalidToken\<close>.  Otherwise the text after the first space is handed to
  \<open>ValidateToken\<close>, whose errors \<open>ErrExpiredToken\<close>, \<open>ErrInvalidClaims\<close> and
  \<open>ErrInvalidToken\<close> are mapped to the domain errors \<open>ExpiredToken\<close>,
  \<open>InvalidClaims\<close> and \<open>InvalidToken\<close>, any other error to \<open>InvalidToken\<close>.  On every
  failure the registered response of the domain error (401, \<^verbatim>\<open>AUTH-000\<close>) is written
  and the chain is aborted without running the rest of it; on success the member id
  and the e-mail address of the claims are stored under the keys \<^verbatim>\<open>member_id\<close> and
  \<^verbatim>\<open>member_email\<close> and the rest of the chain runs.
\<close>

theorem JWT_extraction_and_mapping:
  "(Authorization c = [] \<longrightarrow> extractToken c = Inl middleware_ErrMissingToken)
   \<and> (Authorization c \<noteq> [] \<and> CHR 0x20 \<notin> set (Authorization c)
        \<longrightarrow> extractToken c = Inl middleware_ErrInvalidToken)
   \<and> (\<forall>scheme tok. Authorization c = scheme @ CHR 0x20 # tok \<and> CHR 0x20 \<notin> set scheme
        \<longrightarrow> extractToken c
            = (if EqualFold scheme ''Bearer'' then Inr tok else Inl middleware_ErrInvalidToken))
   \<and> mapTokenError token_ErrExpiredToken = middleware_ErrExpiredToken
   \<and> mapTokenError token_ErrInvalidClaims = middleware_ErrInvalidClaims
   \<and> mapTokenError token_ErrInvalidToken = middleware_ErrInvalidToken
   \<and> (\<forall>err. \<not> errors_Is err token_ErrExpiredToken \<and> \<not> errors_Is err token_ErrInvalidClaims
        \<longrightarrow> mapTokenError err = middleware_ErrInvalidToken)
   \<and> (\<forall>err. extractToken c = Inl err
        \<longrightarrow> JWT validate domainErrorResponses next c
            = c\<lparr>Response := Some (401, login_required), Aborted := True\<rparr>)
   \<and> (\<forall>tok err. extractToken c = Inr tok \<and> validate tok = Inl err
        \<longrightarrow> JWT validate domainErrorResponses next c
              = handleJWTError domainErrorResponses c (mapTokenError err)
            \<and> JWT validate domainErrorResponses next c
              = c\<lparr>Response := Some (401, login_required), Aborted := True\<rparr>)
   \<and> (\<forall>tok claims. extractToken c = Inr tok \<and> validate tok = Inr claims
        \<longrightarrow> JWT validate domainErrorResponses next c
            = next (c\<lparr>Keys := ((Keys c)(''member_id'' \<mapsto> MemberID claims))
                                (''member_email'' \<mapsto> Claims.Email claims)\<rparr>))"
proof (intro conjI allI impI)
  assume "Authorization c = []"
  then show "extractToken c = Inl middleware_ErrMissingToken"
    by (rule extractToken_missing)
next
  assume "Authorization c \<noteq> [] \<and> CHR 0x20 \<notin> set (Authorization c)"
  then show "extractToken c = Inl middleware_ErrInvalidToken"
    by (simp add: extractToken_one_part)
next
  fix scheme tok
  assume "Authorization c = scheme @ CHR 0x20 # tok \<and> CHR 0x20 \<notin> set scheme"
  then show "extractToken c
      = (if EqualFold scheme ''Bearer'' then Inr tok else Inl middleware_ErrInvalidToken)"
    using extractToken_two_parts [of c scheme tok] by (simp add: BearerScheme_def)
next
  show "mapTokenError token_ErrExpiredToken = middleware_ErrExpiredToken"
    by (rule mapTokenError_sentinels)
  show "mapTokenError token_ErrInvalidClaims = middleware_ErrInvalidClaims"
    by (rule mapTokenError_sentinels)
  show "mapTokenError token_ErrInvalidToken = middleware_ErrInvalidToken"
    by (rule mapTokenError_sentinels)
next
  fix err
  assume "\<not> errors_Is err token_ErrExpiredToken \<and> \<not> errors_Is err token_ErrInvalidClaims"
  then show "mapTokenError err = middleware_ErrInvalidToken"
    by (simp add: mapTokenError_def)
next
  fix err
  assume a: "extractToken c = Inl err"
  then have "err \<in> {middleware_ErrMissingToken, middleware_ErrInvalidToken,
                    middleware_ErrExpiredToken, middleware_ErrInvalidClaims}"
    by (auto simp: extractToken_def Let_def split: if_splits list.splits)
  then have "handleJWTError domainErrorResponses c err
      = c\<lparr>Response := Some (401, login_required), Aborted := True\<rparr>"
    by (rule handleJWTError_registered)
  with a show "JWT validate domainErrorResponses next c
      = c\<lparr>Response := Some (401, login_required), Aborted := True\<rparr>"
    by (simp add: JWT_def)
next
  fix tok err
  assume a: "extractToken c = Inr tok \<and> validate tok = Inl err"
  then show j: "JWT validate domainErrorResponses next c
      = handleJWTError domainErrorResponses c (mapTokenError err)"
    by (simp add: JWT_def)
  have "handleJWTError domainErrorResponses c (mapTokenError err)
      = c\<lparr>Response := Some (401, login_required), Aborted := True\<rparr>"
    using mapTokenError_range by (rule handleJWTError_registered)
  with j show "JWT validate domainErrorResponses next c
      = c\<lparr>Response := Some (401, login_required), Aborted := True\<rparr>"
    by simp
next
  fix tok claims
  assume "extractToken c = Inr tok \<and> validate tok = Inr claims"
  then show "JWT validate domainErrorResponses next c
      = next (c\<lparr>Keys := ((Keys c)(''member_id'' \<mapsto> MemberID claims))
                          (''member_email'' \<mapsto> Claims.Email claims)\<rparr>)"
    by (simp add: JWT_def MemberIDKey_def MemberEmailKey_def)
qed

theorem JWT_extraction_and_mapping_witness:
  "extractToken (example_context []) = Inl middleware_ErrMissingToken
   \<and> extractToken (example_context ''Bearer'') = Inl middleware_ErrInvalidToken
   \<and> extractToken (example_context ''Basic abc'') = Inl middleware_ErrInvalidToken
   \<and> extractToken (example_context ''bEARER a.b.c'') = Inr ''a.b.c''
   \<and> JWT (\<lambda>tok. Inl token_ErrExpiredToken) domainErrorResponses id (example_context [])
       = (example_context [])\<lparr>Response := Some (401, login_required), Aborted := True\<rparr>
   \<and> JWT (\<lambda>tok. Inl token_ErrExpiredToken) domainErrorResponses id
         (example_context ''bEARER a.b.c'')
       = (example_context ''bEARER a.b.c'')
           \<lparr>Response := Some (401, login_required), Aborted := True\<rparr>
   \<and> JWT (\<lambda>tok. Inr example_claims) domainErrorResponses id (example_context ''bEARER a.b.c'')
       = (example_context ''bEARER a.b.c'')
           \<lparr>Keys := [''member_id'' \<mapsto> ''1'', ''member_email'' \<mapsto> ''a@x.com'']\<rparr>"
proof -
  let ?expired = "\<lambda>tok :: string. Inl token_ErrExpiredToken :: go_error + Claims"
  let ?valid = "\<lambda>tok :: string. Inr example_claims :: go_error + Claims"
  let ?c0 = "example_context []"
  let ?c1 = "example_context ''Bearer''"
  let ?c2 = "example_context ''Basic abc''"
  let ?c3 = "example_context ''bEARER a.b.c''"
  note T0 = JWT_extraction_and_mapping [where c = ?c0 and validate = ?expired and ?next = id]
  note T1 = JWT_extraction_and_mapping [where c = ?c1 and validate = ?expired and ?next = id]
  note T2 = JWT_extraction_and_mapping [where c = ?c2 and validate = ?expired and ?next = id]
  note T3 = JWT_extraction_and_mapping [where c = ?c3 and validate = ?expired and ?next = id]
  note T4 = JWT_extraction_and_mapping [where c = ?c3 and validate = ?valid and ?next = id]
  have h0: "Authorization ?c0 = []"
    by (simp add: example_context_def)
  have h1: "Authorization ?c1 \<noteq> [] \<and> CHR 0x20 \<notin> set (Authorization ?c1)"
    by (simp add: example_context_def)
  have h2: "Authorization ?c2 = ''Basic'' @ CHR 0x20 # ''abc'' \<and> CHR 0x20 \<notin> set ''Basic''"
    by (simp add: example_context_def)
  have h3: "Authorization ?c3 = ''bEARER'' @ CHR 0x20 # ''a.b.c'' \<and> CHR 0x20 \<notin> set ''bEARER''"
    by (simp add: example_context_def)
  have f2: "\<not> EqualFold ''Basic'' ''Bearer''"
    by (simp add: EqualFold_def ascii_lower_def)
  have f3: "EqualFold ''bEARER'' ''Bearer''"
    by (simp add: EqualFold_def ascii_lower_def)
  note w0 = T0 [THEN conjunct1, rule_format, OF h0]
  note w1 = T1 [THEN conjunct2, THEN conjunct1, rule_format, OF h1]
  have w2: "extractToken ?c2 = Inl middleware_ErrInvalidToken"
    using T2 [THEN conjunct2, THEN conjunct2, THEN conjunct1, rule_format, OF h2] f2 by simp
  have w3: "extractToken ?c3 = Inr ''a.b.c''"
    using T3 [THEN conjunct2, THEN conjunct2, THEN conjunct1, rule_format, OF h3] f3 by simp
  note tail0 = T0 [THEN conjunct2, THEN conjunct2, THEN conjunct2, THEN conjunct2,
      THEN conjunct2, THEN conjunct2, THEN conjunct2]
  note tail3 = T3 [THEN conjunct2, THEN conjunct2, THEN conjunct2, THEN conjunct2,
      THEN conjunct2, THEN conjunct2, THEN conjunct2]
  note tail4 = T4 [THEN conjunct2, THEN conjunct2, THEN conjunct2, THEN conjunct2,
      THEN conjunct2, THEN conjunct2, THEN conjunct2]
  note w4 = tail0 [THEN conjunct1, rule_format, OF w0]
  have e3: "extractToken ?c3 = Inr ''a.b.c'' \<and> ?expired ''a.b.c'' = Inl token_ErrExpiredToken"
    using w3 by simp
  note w5 = tail3 [THEN conjunct2, THEN conjunct1, rule_format, OF e3, THEN conjunct2]
  have v3: "extractToken ?c3 = Inr ''a.b.c'' \<and> ?valid ''a.b.c'' = Inr example_claims"
    using w3 by simp
  have w6: "JWT ?valid domainErrorResponses id ?c3
      = ?c3\<lparr>Keys := [''member_id'' \<mapsto> ''1'', ''member_email'' \<mapsto> ''a@x.com'']\<rparr>"
    using tail4 [THEN conjunct2, THEN conjunct2, rule_format, OF v3]
    by (simp add: example_claims_def example_context_def)
  from w0 w1 w2 w3 w4 w5 w6 show ?thesis
    by (intro conjI)
qed

section \<open>Properties of the segment encoding and of the coercion of strings\<close>

lemma index_in_Some: "index_in xs c = Some i \<Longrightarrow> i < length xs \<and> xs ! i = c"
  by (induction xs arbitrary: i) (auto split: if_splits)

lemma index_in_nth: "distinct xs \<Longrightarrow> i < length xs \<Longrightarrow> index_in xs (xs ! i) = Some i"
proof (induction xs arbitrary: i)
  case Nil
  then show ?case by simp
next
  case (Cons x xs)
  show ?case
  proof (cases i)
    case 0
    then show ?thesis by simp
  next
    case (Suc k)
    with Cons.prems have "k < length xs" "xs ! k \<noteq> x" "distinct xs"
      by auto
    with Cons.IH [of k] Suc show ?thesis by auto
  qed
qed

lemma length_encodeURL: "length encodeURL = 64"
  by (simp add: encodeURL_def)

lemma distinct_encodeURL: "distinct encodeURL"
  by (simp add: encodeURL_def)

lemma encodeURL_no_newline: "CHR 0x0D \<notin> set encodeURL \<and> CHR 0x0A \<notin> set encodeURL"
  by (simp add: encodeURL_def)

lemma sextets_list_all2:
  "sextets s = Some vs \<longleftrightarrow> list_all2 (\<lambda>c v. index_in encodeURL c = Some v) s vs"
proof (induction s arbitrary: vs)
  case Nil
  show ?case by auto
next
  case (Cons c cs)
  show ?case
    by (cases vs) (auto simp: Cons.IH split: option.splits)
qed

lemma sextets_encode:
  assumes "\<forall>v \<in> set vs. v < 64"
  shows "sextets (map (\<lambda>v. encodeURL ! v) vs) = Some vs"
  using assms
  by (simp add: sextets_list_all2 list_all2_conv_all_nth index_in_nth distinct_encodeURL
      length_encodeURL)

lemma div_mod_add: "r < n \<Longrightarrow> (q * n + r) div n = (q::nat) \<and> (q * n + r) mod n = r"
  by simp
lemma b64_enc1: "(y::nat) < 256 \<Longrightarrow> x div 4 * 4 + (x mod 4 * 16 + y div 16) div 16 = x"
  by (simp add: div_mod_add less_mult_imp_div_less)
lemma b64_enc2: "(y::nat) < 256 \<Longrightarrow> (z::nat) < 256 \<Longrightarrow> (x mod 4 * 16 + y div 16) mod 16 * 16 + (y mod 16 * 4 + z div 64) div 4 = y"
  by (simp add: div_mod_add less_mult_imp_div_less)
lemma b64_enc3: "(z::nat) < 256 \<Longrightarrow> (y mod 16 * 4 + z div 64) mod 4 * 64 + z mod 64 = (z::nat)"
  by (simp add: div_mod_add less_mult_imp_div_less)
lemma b64_enc2_last: "(y::nat) < 256 \<Longrightarrow> (x mod 4 * 16 + y div 16) mod 16 * 16 + (y mod 16 * 4) div 4 = y"
  by (simp add: div_mod_add less_mult_imp_div_less)
lemma b64_enc1_last: "x div 4 * 4 + (x mod 4 * 16) div 16 = (x::nat)"
  by (simp add: div_mod_add less_mult_imp_div_less)
lemma b64_dec1: "(b::nat) < 64 \<Longrightarrow> (a * 4 + b div 16) div 4 = a"
  by (simp add: div_mod_add less_mult_imp_div_less)
lemma b64_dec2: "(b::nat) < 64 \<Longrightarrow> c < 64 \<Longrightarrow> (a * 4 + b div 16) mod 4 * 16 + ((b mod 16) * 16 + c div 4) div 16 = b"
  by (simp add: div_mod_add less_mult_imp_div_less)
lemma b64_dec3: "(c::nat) < 64 \<Longrightarrow> d < 64 \<Longrightarrow> ((b mod 16) * 16 + c div 4) mod 16 * 4 + ((c mod 4) * 64 + d) div 64 = c"
  by (simp add: div_mod_add less_mult_imp_div_less)
lemma b64_dec4: "(d::nat) < 64 \<Longrightarrow> ((c mod 4) * 64 + d) mod 64 = d"
  by (simp add: div_mod_add less_mult_imp_div_less)
lemma b64_byte1: "(a::nat) < 64 \<Longrightarrow> b < 64 \<Longrightarrow> a * 4 + b div 16 < 256"
  by (simp add: less_mult_imp_div_less add_less_le_mono) 
lemma b64_byte2: "(b::nat) < 64 \<Longrightarrow> c < 64 \<Longrightarrow> (b mod 16) * 16 + c div 4 < 256"
  by (simp add: less_mult_imp_div_less) 
lemma b64_byte3: "(c::nat) < 64 \<Longrightarrow> d < 64 \<Longrightarrow> (c mod 4) * 64 + d < 256"
  by (simp add: less_mult_imp_div_less) 

lemma encode_groups_lt64:
  "\<forall>b \<in> set bs. b < 256 \<Longrightarrow> \<forall>v \<in> set (encode_groups bs). v < 64"
proof (induction bs rule: encode_groups.induct)
  case (1 x y z rest)
  then show ?case by (auto simp: less_mult_imp_div_less)
next
  case (2 x y)
  then show ?case by (auto simp: less_mult_imp_div_less) 
next
  case (3 x)
  then show ?case by (auto simp: less_mult_imp_div_less)
next
  case 4
  show ?case by simp
qed

lemma decode_encode_groups:
  "\<forall>b \<in> set bs. b < 256 \<Longrightarrow> decode_groups (encode_groups bs) = Some bs"
proof (induction bs rule: encode_groups.induct)
  case (1 x y z rest)
  then have "x < 256" "y < 256" "z < 256" by simp_all
  with 1 show ?case by (simp add: b64_enc1 b64_enc2 b64_enc3)
next
  case (2 x y)
  then have "x < 256" "y < 256" by simp_all
  then show ?case by (simp add: b64_enc1 b64_enc2_last)
next
  case (3 x)
  show ?case by (simp add: b64_enc1_last)
next
  case 4
  show ?case by simp
qed

lemma decode_groups_lt256:
  "decode_groups vs = Some bs \<Longrightarrow> \<forall>v \<in> set vs. v < 64 \<Longrightarrow> \<forall>b \<in> set bs. b < 256"
proof (induction vs arbitrary: bs rule: decode_groups.induct)
  case (1 a b c d rest)
  then obtain bytes where r: "decode_groups rest = Some bytes"
    and bs: "bs = [a * 4 + b div 16, (b mod 16) * 16 + c div 4, (c mod 4) * 64 + d] @ bytes"
    by auto
  from 1 have lt: "a < 64" "b < 64" "c < 64" "d < 64" "\<forall>v \<in> set rest. v < 64"
    by simp_all
  from "1.IH" [OF r lt(5)] have "\<forall>b \<in> set bytes. b < 256" .
  with lt bs show ?case by (simp add: b64_byte1 b64_byte2 b64_byte3)
next
  case (2 a b c)
  then have "a < 64" "b < 64" "c < 64" by simp_all
  with 2 show ?case by (auto simp: b64_byte1 b64_byte2)
next
  case (3 a b)
  then have "a < 64" "b < 64" by simp_all
  with 3 show ?case by (auto simp: b64_byte1)
next
  case (4 a)
  then show ?case by simp
next
  case 5
  then show ?case by simp
qed

lemma encode_decode_groups:
  "decode_groups vs = Some bs \<Longrightarrow> \<forall>v \<in> set vs. v < 64 \<Longrightarrow>
     length (encode_groups bs) = length vs \<and> butlast (encode_groups bs) = butlast vs"
proof (induction vs arbitrary: bs rule: decode_groups.induct)
  case (1 a b c d rest)
  then obtain bytes where r: "decode_groups rest = Some bytes"
    and bs: "bs = [a * 4 + b div 16, (b mod 16) * 16 + c div 4, (c mod 4) * 64 + d] @ bytes"
    by auto
  from 1 have lt: "a < 64" "b < 64" "c < 64" "d < 64" "\<forall>v \<in> set rest. v < 64"
    by simp_all
  from "1.IH" [OF r lt(5)] have ih: "length (encode_groups bytes) = length rest"
    "butlast (encode_groups bytes) = butlast rest"
    by simp_all
  from ih(1) have "encode_groups bytes = [] \<longleftrightarrow> rest = []"
    by (metis length_0_conv)
  with lt ih bs show ?case by (simp add: b64_dec1 b64_dec2 b64_dec3 b64_dec4)
next
  case (2 a b c)
  then have lt: "a < 64" "b < 64" "c < 64" by simp_all
  with 2 show ?case by (auto simp: b64_dec1 b64_dec2)
next
  case (3 a b)
  then have lt: "a < 64" "b < 64" by simp_all
  with 3 show ?case by (auto simp: b64_dec1)
next
  case (4 a)
  then show ?case by simp
next
  case 5
  then show ?case by auto
qed


lemma of_char_char_of_bytes:
  "\<forall>n \<in> set ns. n < (256::nat) \<Longrightarrow> map of_char (map char_of ns :: string) = ns"
  by (induction ns) simp_all

lemma EncodeSegment_sextets:
  "sextets (EncodeSegment seg) = Some (encode_groups (map of_char seg))"
proof -
  have "\<forall>b \<in> set (map of_char seg :: nat list). b < 256"
    by (simp add: nat_of_char_less_256)
  then have "\<forall>v \<in> set (encode_groups (map of_char seg)). v < 64"
    by (rule encode_groups_lt64)
  then show ?thesis
    unfolding EncodeSegment_def by (rule sextets_encode)
qed

lemma sextets_chars: "sextets s = Some vs \<Longrightarrow> set s \<subseteq> set encodeURL"
proof (induction s arbitrary: vs)
  case Nil
  show ?case by simp
next
  case (Cons c cs)
  then show ?case
    by (auto split: option.splits dest: index_in_Some)
qed

lemma sextets_no_newline:
  "sextets s = Some vs \<Longrightarrow> filter (\<lambda>c. c \<noteq> CHR 0x0D \<and> c \<noteq> CHR 0x0A) s = s"
  using sextets_chars [of s vs] encodeURL_no_newline
  by (auto simp: filter_id_conv)

lemma DecodeSegment_EncodeSegment: "DecodeSegment (EncodeSegment seg) = Some seg"
proof -
  have b: "\<forall>b \<in> set (map of_char seg :: nat list). b < 256"
    by (simp add: nat_of_char_less_256)
  have "filter (\<lambda>c. c \<noteq> CHR 0x0D \<and> c \<noteq> CHR 0x0A) (EncodeSegment seg) = EncodeSegment seg"
    using EncodeSegment_sextets by (rule sextets_no_newline)
  then show ?thesis
    by (simp add: DecodeSegment_def EncodeSegment_sextets decode_encode_groups [OF b]
        o_def)
qed

lemma DecodeSegment_altered:
  assumes i: "Suc i < length (EncodeSegment seg)"
    and c: "c \<noteq> EncodeSegment seg ! i"
  shows "DecodeSegment ((EncodeSegment seg)[i := c]) \<noteq> Some seg"
proof
  let ?keep = "\<lambda>c. c \<noteq> CHR 0x0D \<and> c \<noteq> CHR 0x0A"
  let ?s = "EncodeSegment seg"
  let ?xs = "encode_groups (map of_char seg)"
  assume d: "DecodeSegment (?s[i := c]) = Some seg"
  then obtain ys ns where ys: "sextets (filter ?keep (?s[i := c])) = Some ys"
    and ns: "decode_groups ys = Some ns" and seg: "map char_of ns = seg"
    by (auto simp: DecodeSegment_def split: option.splits)
  from ys have l2: "list_all2 (\<lambda>c v. index_in encodeURL c = Some v) (filter ?keep (?s[i := c])) ys"
    by (simp add: sextets_list_all2)
  have ys64: "\<forall>v \<in> set ys. v < 64"
  proof
    fix v assume "v \<in> set ys"
    then obtain k where k: "k < length ys" "ys ! k = v"
      by (auto simp: in_set_conv_nth)
    with l2 have "index_in encodeURL (filter ?keep (?s[i := c]) ! k) = Some v"
      by (auto simp: list_all2_conv_all_nth)
    then show "v < 64"
      using index_in_Some length_encodeURL by metis
  qed
  from decode_groups_lt256 [OF ns ys64] have "map of_char (map char_of ns :: string) = ns"
    by (rule of_char_char_of_bytes)
  with seg have "map of_char seg = ns" by simp
  with encode_decode_groups [OF ns ys64]
  have len: "length ?xs = length ys" and bl: "butlast ?xs = butlast ys"
    by simp_all
  have ls: "length ?s = length ?xs"
    by (simp add: EncodeSegment_def)
  from l2 have "length (filter ?keep (?s[i := c])) = length ys"
    by (rule list_all2_lengthD)
  with len ls have "length (filter ?keep (?s[i := c])) = length (?s[i := c])"
    by simp
  then have keep: "filter ?keep (?s[i := c]) = ?s[i := c]"
    by (metis filter_True length_filter_less nat_neq_iff)
  from i have i': "i < length ?s" by simp
  from l2 keep have l2': "list_all2 (\<lambda>c v. index_in encodeURL c = Some v) (?s[i := c]) ys"
    by simp
  from i' have "i < length (?s[i := c])" by simp
  from list_all2_nthD [OF l2' this]
  have "index_in encodeURL ((?s[i := c]) ! i) = Some (ys ! i)" .
  with i' have ci: "index_in encodeURL c = Some (ys ! i)"
    by simp
  from i len ls have "ys ! i = butlast ys ! i" "?xs ! i = butlast ?xs ! i"
    by (simp_all add: nth_butlast)
  with bl have "ys ! i = ?xs ! i" by simp
  with ci have "encodeURL ! (?xs ! i) = c"
    using index_in_Some by metis
  moreover from i' ls have "?s ! i = encodeURL ! (?xs ! i)"
    by (simp add: EncodeSegment_def)
  ultimately show False using c by simp
qed

lemma encode_groups_last_bits:
  assumes "length bs mod 3 = 2" and "\<forall>b \<in> set bs. b < 256"
  shows "encode_groups bs \<noteq> [] \<and> last (encode_groups bs) + 1 < 64
     \<and> decode_groups (butlast (encode_groups bs) @ [last (encode_groups bs) + 1]) = Some bs"
  using assms
proof (induction bs rule: encode_groups.induct)
  case (1 x y z rest)
  then have lt: "x < 256" "y < 256" "z < 256" "\<forall>b \<in> set rest. b < 256"
    and len: "length rest mod 3 = 2"
    by simp_all
  from "1.IH" [OF len lt(4)] have ih: "encode_groups rest \<noteq> []"
    "last (encode_groups rest) + 1 < 64"
    "decode_groups (butlast (encode_groups rest) @ [last (encode_groups rest) + 1]) = Some rest"
    by simp_all
  from ih lt show ?case
    by (simp add: butlast_append b64_enc1 b64_enc2 b64_enc3)
next
  case (2 x y)
  then have lt: "x < 256" "y < 256" by simp_all
  have "(y mod 16 * 4 + 1) div 4 = y mod 16"
    by (simp add: div_mod_add)
  moreover have "y mod 16 * 4 + 1 < 64"
    using mod_less_divisor [of 16 y] by linarith
  ultimately show ?case using lt
    by (simp add: b64_enc1 div_mod_add less_mult_imp_div_less)
next
  case (3 x)
  then show ?case by simp
next
  case 4
  then show ?case by simp
qed

lemma DecodeSegment_last_character:
  assumes "length seg mod 3 = 2"
  shows "\<exists>c. c \<noteq> last (EncodeSegment seg)
     \<and> DecodeSegment (butlast (EncodeSegment seg) @ [c]) = Some seg"
proof -
  let ?f = "\<lambda>v. encodeURL ! v"
  let ?bs = "map of_char seg :: nat list"
  let ?xs = "encode_groups ?bs"
  let ?v = "last ?xs"
  let ?ys = "butlast ?xs @ [?v + 1]"
  have b: "\<forall>b \<in> set ?bs. b < 256"
    by (simp add: nat_of_char_less_256)
  from assms have "length ?bs mod 3 = 2" by simp
  from encode_groups_last_bits [OF this b]
  have ne: "?xs \<noteq> []" and v: "?v + 1 < 64" and d: "decode_groups ?ys = Some ?bs"
    by simp_all
  from encode_groups_lt64 [OF b] have "\<forall>v \<in> set (butlast ?xs). v < 64"
    by (meson in_set_butlastD)
  with v have ys64: "\<forall>v \<in> set ?ys. v < 64" by simp
  have s: "sextets (map ?f ?ys) = Some ?ys"
    using ys64 by (rule sextets_encode)
  then have k: "filter (\<lambda>c. c \<noteq> CHR 0x0D \<and> c \<noteq> CHR 0x0A) (map ?f ?ys) = map ?f ?ys"
    by (rule sextets_no_newline)
  have m: "butlast (EncodeSegment seg) @ [?f (?v + 1)] = map ?f ?ys"
    by (simp add: EncodeSegment_def map_butlast)
  have "DecodeSegment (map ?f ?ys) = map_option (map char_of) (Some ?bs)"
    by (simp only: DecodeSegment_def k s d option.case)
  then have "DecodeSegment (map ?f ?ys) = Some seg"
    by (simp add: o_def)
  with m have r: "DecodeSegment (butlast (EncodeSegment seg) @ [?f (?v + 1)]) = Some seg"
    by simp
  from ne have "last (EncodeSegment seg) = ?f ?v"
    by (simp add: EncodeSegment_def last_map)
  moreover from v have "?f (?v + 1) \<noteq> ?f ?v"
    using distinct_encodeURL length_encodeURL
    by (simp add: nth_eq_iff_index_eq)
  ultimately have "?f (?v + 1) \<noteq> last (EncodeSegment seg)"
    by simp
  with r show ?thesis by blast
qed


lemma rune_len_ascii: "b0 < 0x80 \<Longrightarrow> rune_len (b0 # bs) = 1"
  by simp

lemma coerce_valid_utf8_ascii:
  "list_all (\<lambda>c. of_char c < (128::nat)) s \<Longrightarrow> coerce_valid_utf8 s = s"
  by (induction s) simp_all

lemma ValidString_ascii:
  "list_all (\<lambda>c. of_char c < (128::nat)) s \<Longrightarrow> ValidString s"
  by (induction s) simp_all

lemma coerce_valid_utf8_ValidString: "ValidString s \<Longrightarrow> coerce_valid_utf8 s = s"
proof (induction s rule: coerce_valid_utf8.induct)
  case 1
  show ?case by simp
next
  case (2 c cs)
  show ?case
  proof (cases "rune_len (map of_char (c # cs))")
    case 0
    with "2.prems" show ?thesis by simp
  next
    case (Suc k)
    with "2.prems" have "ValidString (drop k cs)" by simp
    with "2.IH"(2) [OF Suc] Suc show ?thesis by simp
  qed
qed

section \<open>Properties of the token manager\<close>

lemma GenerateAccessToken_claims:
  "GenerateAccessToken sign m now memberID email =
     sign ''HS256'' (secret m)
       \<lparr>MemberID = memberID, Claims.Email = email, TokenType = ''access'',
        Claims.ExpiresAt = Unix (now + accessExpiry m), Claims.IssuedAt = Unix now,
        Registered =
          \<lparr>Issuer = issuer m, Subject = [],
           RegisteredClaims.ExpiresAt = Some (NewNumericDate (now + accessExpiry m)),
           NotBefore = None,
           RegisteredClaims.IssuedAt = Some (NewNumericDate now)\<rparr>\<rparr>"
  by (simp add: GenerateAccessToken_def ACCESS_def Let_def)

lemma GenerateRefreshToken_claims:
  "GenerateRefreshToken sign m now memberID email =
     sign ''HS256'' (secret m)
       \<lparr>MemberID = memberID, Claims.Email = email, TokenType = ''refresh'',
        Claims.ExpiresAt = Unix (now + refreshExpiry m), Claims.IssuedAt = Unix now,
        Registered =
          \<lparr>Issuer = issuer m, Subject = memberID,
           RegisteredClaims.ExpiresAt = Some (NewNumericDate (now + refreshExpiry m)),
           NotBefore = None,
           RegisteredClaims.IssuedAt = Some (NewNumericDate now)\<rparr>\<rparr>"
  by (simp add: GenerateRefreshToken_def REFRESH_def Let_def)

text \<open>
  Claim C9.  The claims of an access token carry the type \<^verbatim>\<open>access\<close>, the issue time
  and the issue time plus the access lifetime, in seconds.  They do not carry the
  subject: \<open>GenerateAccessToken\<close> leaves \<^verbatim>\<open>Subject\<close> empty, so the signed JSON has no
  \<^verbatim>\<open>sub\<close>, while \<open>GenerateRefreshToken\<close> sets it to the member id.  Evaluated for the
  member id \<^verbatim>\<open>42\<close>, issued 123456789 nanoseconds after second 1700000000, with an
  access lifetime of 900 seconds.
\<close>

theorem GenerateAccessToken_subject_empty:
  "GenerateAccessToken (jwt_SignedString example_mac) example_manager 1700000000123456789
      ''42'' ''a@x.com''
     = Inr (Segments (Decoded \<lparr>alg = ''HS256'', token_typ = ''JWT''\<rparr>)
              (Decoded \<lparr>json_member_id = ''42'', json_email = ''a@x.com'',
                        json_token_type = ''access'', json_exp = 1700000900,
                        json_iat = 1700000000, json_iss = ''pray-together'',
                        json_sub = [], json_nbf = None\<rparr>)
              (Decoded ''secret42a@x.com''))
   \<and> GenerateRefreshToken (jwt_SignedString example_mac) example_manager 1700000000123456789
        ''42'' ''a@x.com''
     = Inr (Segments (Decoded \<lparr>alg = ''HS256'', token_typ = ''JWT''\<rparr>)
              (Decoded \<lparr>json_member_id = ''42'', json_email = ''a@x.com'',
                        json_token_type = ''refresh'', json_exp = 1700604800,
                        json_iat = 1700000000, json_iss = ''pray-together'',
                        json_sub = ''42'', json_nbf = None\<rparr>)
              (Decoded ''secret42a@x.com''))"
  by (simp add: GenerateAccessToken_claims GenerateRefreshToken_claims jwt_SignedString_def
      marshal_Claims_def example_manager_def example_mac_def Unix_def Let_def
      coerce_valid_utf8_ascii)

lemma jwt_Validate_unmarshal:
  "json_nbf j = None \<Longrightarrow> jwt_Validate t (unmarshal_Claims j) = []"
  by (simp add: jwt_Validate_def unmarshal_Claims_def)

lemma jwt_Validate_unmarshal_not_expired:
  "ErrTokenExpired \<notin> set (jwt_Validate t (unmarshal_Claims j))"
  by (simp add: jwt_Validate_def unmarshal_Claims_def Let_def split: option.splits)

lemma ValidateToken_signed:
  "json_nbf j = None \<Longrightarrow>
   ValidateToken (jwt_ParseWithClaims mac t) m
      (Segments (Decoded \<lparr>alg = ''HS256'', token_typ = ty\<rparr>) (Decoded j)
         (Decoded (mac (secret m) (\<lparr>alg = ''HS256'', token_typ = ty\<rparr>, j))))
     = Inr (unmarshal_Claims j)"
  by (simp add: ValidateToken_def jwt_ParseWithClaims_def jwt_Validate_unmarshal Let_def)

lemma ValidateToken_bad_signature:
  "s \<noteq> mac (secret m) (h, j) \<Longrightarrow>
     ValidateToken (jwt_ParseWithClaims mac t) m (Segments (Decoded h) (Decoded j) (Decoded s))
       = Inl token_ErrInvalidToken"
  by (simp add: ValidateToken_def jwt_ParseWithClaims_def)

lemma ValidateToken_undecodable_claims:
  "ValidateToken (jwt_ParseWithClaims mac t) m (Segments h Undecodable s)
     = Inl token_ErrInvalidToken"
  by (cases h) (simp_all add: ValidateToken_def jwt_ParseWithClaims_def)

lemma ValidateToken_malformed:
  "ValidateToken (jwt_ParseWithClaims mac t) m NotThreeSegments = Inl token_ErrInvalidToken"
  "ValidateToken (jwt_ParseWithClaims mac t) m (Segments Undecodable c s)
     = Inl token_ErrInvalidToken"
  "ValidateToken (jwt_ParseWithClaims mac t) m (Segments (Decoded h) (Decoded j) Undecodable)
     = Inl token_ErrInvalidToken"
  by (simp_all add: ValidateToken_def jwt_ParseWithClaims_def)

lemma ValidateToken_base64_signed:
  "json_nbf j = None \<Longrightarrow>
   ValidateToken (jwt_ParseWithClaims_base64 mac t) m
      (Parts (Decoded \<lparr>alg = ''HS256'', token_typ = ty\<rparr>) (Decoded j)
         (EncodeSegment (mac (secret m) (\<lparr>alg = ''HS256'', token_typ = ty\<rparr>, j))))
     = Inr (unmarshal_Claims j)"
  using ValidateToken_signed [of j mac t m ty]
  by (simp add: ValidateToken_def jwt_ParseWithClaims_base64_def decode_signature_def
      DecodeSegment_EncodeSegment)

lemma ValidateToken_base64_same_bytes:
  "DecodeSegment text' = DecodeSegment text \<Longrightarrow>
   ValidateToken (jwt_ParseWithClaims_base64 mac t) m (Parts hs cs text')
     = ValidateToken (jwt_ParseWithClaims_base64 mac t) m (Parts hs cs text)"
  by (simp add: ValidateToken_def jwt_ParseWithClaims_base64_def decode_signature_def)

lemma ValidateToken_base64_bad_signature:
  assumes "DecodeSegment text \<noteq> Some (mac (secret m) (h, j))"
  shows "ValidateToken (jwt_ParseWithClaims_base64 mac t) m (Parts (Decoded h) (Decoded j) text)
       = Inl token_ErrInvalidToken"
proof (cases "DecodeSegment text")
  case None
  then show ?thesis
    using ValidateToken_malformed(3) [of mac t m h j]
    by (simp add: ValidateToken_def jwt_ParseWithClaims_base64_def decode_signature_def)
next
  case (Some s)
  with assms have "s \<noteq> mac (secret m) (h, j)" by simp
  from ValidateToken_bad_signature [where s = s and mac = mac and m = m and h = h and j = j
      and t = t, OF this] Some show ?thesis
    by (simp add: ValidateToken_def jwt_ParseWithClaims_base64_def decode_signature_def)
qed

text \<open>
  Claim C1, amended.  With the signer and the parser of the library on token strings,
  for every MAC, manager, issue time, member id and e-mail address: the access token
  validates, at any time before its expiry, to claims of type \<^verbatim>\<open>access\<close> whose member
  id and address are the given ones coerced to valid UTF-8, hence the given ones when
  these are valid UTF-8.  The token with one character of its signature other than the
  last replaced by a different byte is refused with an error, and so is every token
  whose signature text does not decode to the bytes that the signature of the token
  decodes to.
\<close>

theorem token_round_trip:
  "\<exists>h j text.
     GenerateAccessToken (jwt_SignedString_base64 mac) m issued memberID email
       = Inr (Parts (Decoded h) (Decoded j) text)
     \<and> (\<forall>t. t < NewNumericDate (issued + accessExpiry m)
          \<longrightarrow> (\<exists>claims.
                ValidateToken (jwt_ParseWithClaims_base64 mac t) m
                    (Parts (Decoded h) (Decoded j) text) = Inr claims
                \<and> MemberID claims = coerce_valid_utf8 memberID
                \<and> Claims.Email claims = coerce_valid_utf8 email
                \<and> TokenType claims = ''access''
                \<and> (ValidString memberID \<and> ValidString email
                     \<longrightarrow> MemberID claims = memberID \<and> Claims.Email claims = email)))
     \<and> (\<forall>t i c. Suc i < length text \<and> c \<noteq> text ! i
          \<longrightarrow> (\<exists>err.
                ValidateToken (jwt_ParseWithClaims_base64 mac t) m
                    (Parts (Decoded h) (Decoded j) (text[i := c])) = Inl err))
     \<and> (\<forall>t text'. DecodeSegment text' \<noteq> DecodeSegment text
          \<longrightarrow> (\<exists>err.
                ValidateToken (jwt_ParseWithClaims_base64 mac t) m
                    (Parts (Decoded h) (Decoded j) text') = Inl err))"
proof -
  let ?c = "\<lparr>MemberID = memberID, Claims.Email = email, TokenType = ''access'',
        Claims.ExpiresAt = Unix (issued + accessExpiry m), Claims.IssuedAt = Unix issued,
        Registered =
          \<lparr>Issuer = issuer m, Subject = [],
           RegisteredClaims.ExpiresAt = Some (NewNumericDate (issued + accessExpiry m)),
           NotBefore = None,
           RegisteredClaims.IssuedAt = Some (NewNumericDate issued)\<rparr>\<rparr>"
  let ?h = "\<lparr>alg = ''HS256'', token_typ = ''JWT''\<rparr>"
  let ?j = "marshal_Claims ?c"
  let ?s = "mac (secret m) (?h, ?j)"
  let ?text = "EncodeSegment ?s"
  have g: "GenerateAccessToken (jwt_SignedString_base64 mac) m issued memberID email
      = Inr (Parts (Decoded ?h) (Decoded ?j) ?text)"
    by (simp add: GenerateAccessToken_claims jwt_SignedString_base64_def Let_def)
  have n: "json_nbf ?j = None"
    by (simp add: marshal_Claims_def)
  have v: "\<And>t. ValidateToken (jwt_ParseWithClaims_base64 mac t) m
        (Parts (Decoded ?h) (Decoded ?j) ?text) = Inr (unmarshal_Claims ?j)"
    using n by (rule ValidateToken_base64_signed)
  have f: "MemberID (unmarshal_Claims ?j) = coerce_valid_utf8 memberID
      \<and> Claims.Email (unmarshal_Claims ?j) = coerce_valid_utf8 email
      \<and> TokenType (unmarshal_Claims ?j) = ''access''"
    by (simp add: unmarshal_Claims_def marshal_Claims_def coerce_valid_utf8_ascii)
  have d: "DecodeSegment ?text = Some ?s"
    by (rule DecodeSegment_EncodeSegment)
  show ?thesis
  proof (intro exI [of _ ?h] exI [of _ ?j] exI [of _ ?text] conjI allI impI)
    show "GenerateAccessToken (jwt_SignedString_base64 mac) m issued memberID email
        = Inr (Parts (Decoded ?h) (Decoded ?j) ?text)"
      by (rule g)
  next
    fix t
    show "\<exists>claims. ValidateToken (jwt_ParseWithClaims_base64 mac t) m
          (Parts (Decoded ?h) (Decoded ?j) ?text) = Inr claims
        \<and> MemberID claims = coerce_valid_utf8 memberID
        \<and> Claims.Email claims = coerce_valid_utf8 email
        \<and> TokenType claims = ''access''
        \<and> (ValidString memberID \<and> ValidString email
             \<longrightarrow> MemberID claims = memberID \<and> Claims.Email claims = email)"
      using v [of t] f
      by (intro exI [of _ "unmarshal_Claims ?j"]) (simp add: coerce_valid_utf8_ValidString)
  next
    fix t i c
    assume a: "Suc i < length ?text \<and> c \<noteq> ?text ! i"
    then have "DecodeSegment (?text[i := c]) \<noteq> Some ?s"
      by (simp add: DecodeSegment_altered)
    then have "ValidateToken (jwt_ParseWithClaims_base64 mac t) m
        (Parts (Decoded ?h) (Decoded ?j) (?text[i := c])) = Inl token_ErrInvalidToken"
      by (rule ValidateToken_base64_bad_signature)
    then show "\<exists>err. ValidateToken (jwt_ParseWithClaims_base64 mac t) m
        (Parts (Decoded ?h) (Decoded ?j) (?text[i := c])) = Inl err"
      by (intro exI [of _ token_ErrInvalidToken])
  next
    fix t text'
    assume "DecodeSegment text' \<noteq> DecodeSegment ?text"
    with d have "DecodeSegment text' \<noteq> Some ?s" by simp
    then have "ValidateToken (jwt_ParseWithClaims_base64 mac t) m
        (Parts (Decoded ?h) (Decoded ?j) text') = Inl token_ErrInvalidToken"
      by (rule ValidateToken_base64_bad_signature)
    then show "\<exists>err. ValidateToken (jwt_ParseWithClaims_base64 mac t) m
        (Parts (Decoded ?h) (Decoded ?j) text') = Inl err"
      by (intro exI [of _ token_ErrInvalidToken])
  qed
qed

text \<open>
  Claim C1, as stated, fails in two ways.  The access token for the member id \<^verbatim>\<open>42\<close>
  has a signature of 43 characters that ends in \<^verbatim>\<open>M\<close>; the last character carries four
  bits of the signature and two unused bits, the token with that character replaced by
  \<^verbatim>\<open>N\<close> decodes to the same bytes, and it validates.  And the token issued for a
  member id that is the single byte \<^verbatim>\<open>FF\<close>, which is not valid UTF-8, validates to
  claims whose member id is the replacement character, not the id given.
\<close>

theorem token_round_trip_counterexample:
  "GenerateAccessToken (jwt_SignedString_base64 example_mac32) example_manager
      1700000000123456789 ''42'' ''a@x.com''
     = Inr (Parts (Decoded \<lparr>alg = ''HS256'', token_typ = ''JWT''\<rparr>)
              (Decoded \<lparr>json_member_id = ''42'', json_email = ''a@x.com'',
                       json_token_type = ''access'', json_exp = 1700000900,
                       json_iat = 1700000000, json_iss = ''pray-together'',
                       json_sub = [], json_nbf = None\<rparr>)
              ''c2VjcmV0NDJhQHguY29tIyMjIyMjIyMjIyMjIyMjIyM'')
   \<and> ''c2VjcmV0NDJhQHguY29tIyMjIyMjIyMjIyMjIyMjIyN''
       = ''c2VjcmV0NDJhQHguY29tIyMjIyMjIyMjIyMjIyMjIyM''[42 := CHR ''N'']
   \<and> ''c2VjcmV0NDJhQHguY29tIyMjIyMjIyMjIyMjIyMjIyM'' ! 42 \<noteq> CHR ''N''
   \<and> ValidateToken (jwt_ParseWithClaims_base64 example_mac32 1700000060000000000)
        example_manager
        (Parts (Decoded \<lparr>alg = ''HS256'', token_typ = ''JWT''\<rparr>)
           (Decoded \<lparr>json_member_id = ''42'', json_email = ''a@x.com'',
                       json_token_type = ''access'', json_exp = 1700000900,
                       json_iat = 1700000000, json_iss = ''pray-together'',
                       json_sub = [], json_nbf = None\<rparr>)
           ''c2VjcmV0NDJhQHguY29tIyMjIyMjIyMjIyMjIyMjIyN'')
     = Inr (unmarshal_Claims
              \<lparr>json_member_id = ''42'', json_email = ''a@x.com'',
                       json_token_type = ''access'', json_exp = 1700000900,
                       json_iat = 1700000000, json_iss = ''pray-together'',
                       json_sub = [], json_nbf = None\<rparr>)
   \<and> GenerateAccessToken (jwt_SignedString_base64 example_mac32) example_manager
        1700000000123456789 [CHR 0xFF] ''a@x.com''
     = Inr (Parts (Decoded \<lparr>alg = ''HS256'', token_typ = ''JWT''\<rparr>)
              (Decoded (\<lparr>json_member_id = [CHR 0xEF, CHR 0xBF, CHR 0xBD],
                         json_email = ''a@x.com'', json_token_type = ''access'',
                         json_exp = 1700000900, json_iat = 1700000000,
                         json_iss = ''pray-together'', json_sub = [], json_nbf = None\<rparr>))
              ''c2VjcmV077-9YUB4LmNvbSMjIyMjIyMjIyMjIyMjIyM'')
   \<and> map_sum id MemberID
        (ValidateToken (jwt_ParseWithClaims_base64 example_mac32 1700000060000000000)
           example_manager
           (Parts (Decoded \<lparr>alg = ''HS256'', token_typ = ''JWT''\<rparr>)
              (Decoded (\<lparr>json_member_id = [CHR 0xEF, CHR 0xBF, CHR 0xBD],
                         json_email = ''a@x.com'', json_token_type = ''access'',
                         json_exp = 1700000900, json_iat = 1700000000,
                         json_iss = ''pray-together'', json_sub = [], json_nbf = None\<rparr>))
              ''c2VjcmV077-9YUB4LmNvbSMjIyMjIyMjIyMjIyMjIyM''))
     = Inr [CHR 0xEF, CHR 0xBF, CHR 0xBD]
   \<and> [CHR 0xEF, CHR 0xBF, CHR 0xBD] \<noteq> [CHR 0xFF]"
  by code_simp

text \<open>
  The same holds of every MAC whose output has a length of two modulo three, as the
  32 bytes of HMAC-SHA256 have: the last character of the signature of every access
  token can be replaced by another one, and the token still validates.
\<close>

lemma ValidateToken_accepts_altered_last_character:
  assumes "length (mac (secret m) (\<lparr>alg = ''HS256'', token_typ = ''JWT''\<rparr>, j)) mod 3 = 2"
    and "json_nbf j = None"
  shows "\<exists>c. c \<noteq> last (EncodeSegment (mac (secret m) (\<lparr>alg = ''HS256'', token_typ = ''JWT''\<rparr>, j)))
     \<and> ValidateToken (jwt_ParseWithClaims_base64 mac t) m
          (Parts (Decoded \<lparr>alg = ''HS256'', token_typ = ''JWT''\<rparr>) (Decoded j)
             (butlast (EncodeSegment (mac (secret m) (\<lparr>alg = ''HS256'', token_typ = ''JWT''\<rparr>, j)))
                @ [c]))
         = Inr (unmarshal_Claims j)"
proof -
  let ?h = "\<lparr>alg = ''HS256'', token_typ = ''JWT''\<rparr>"
  let ?s = "mac (secret m) (?h, j)"
  from DecodeSegment_last_character [OF assms(1)] obtain c where
    c: "c \<noteq> last (EncodeSegment ?s)"
    and d: "DecodeSegment (butlast (EncodeSegment ?s) @ [c]) = Some ?s"
    by (elim exE conjE)
  from d have "DecodeSegment (butlast (EncodeSegment ?s) @ [c]) = DecodeSegment (EncodeSegment ?s)"
    by (simp add: DecodeSegment_EncodeSegment)
  then have "ValidateToken (jwt_ParseWithClaims_base64 mac t) m
        (Parts (Decoded ?h) (Decoded j) (butlast (EncodeSegment ?s) @ [c]))
      = ValidateToken (jwt_ParseWithClaims_base64 mac t) m
        (Parts (Decoded ?h) (Decoded j) (EncodeSegment ?s))"
    by (rule ValidateToken_base64_same_bytes)
  also have "\<dots> = Inr (unmarshal_Claims j)"
    using assms(2) by (rule ValidateToken_base64_signed)
  finally show ?thesis using c by (intro exI [of _ c] conjI)
qed

theorem token_round_trip_witness:
  "GenerateAccessToken (jwt_SignedString_base64 example_mac32) example_manager
      1700000000123456789 ''42'' ''a@x.com''
     = Inr (Parts (Decoded \<lparr>alg = ''HS256'', token_typ = ''JWT''\<rparr>)
              (Decoded \<lparr>json_member_id = ''42'', json_email = ''a@x.com'',
                       json_token_type = ''access'', json_exp = 1700000900,
                       json_iat = 1700000000, json_iss = ''pray-together'',
                       json_sub = [], json_nbf = None\<rparr>)
              ''c2VjcmV0NDJhQHguY29tIyMjIyMjIyMjIyMjIyMjIyM'')
   \<and> (1700000060000000000 :: int)
        < NewNumericDate (1700000000123456789 + accessExpiry example_manager)
   \<and> ValidString ''42'' \<and> ValidString ''a@x.com''
   \<and> (\<exists>claims.
        ValidateToken (jwt_ParseWithClaims_base64 example_mac32 1700000060000000000)
          example_manager
          (Parts (Decoded \<lparr>alg = ''HS256'', token_typ = ''JWT''\<rparr>)
             (Decoded \<lparr>json_member_id = ''42'', json_email = ''a@x.com'',
                       json_token_type = ''access'', json_exp = 1700000900,
                       json_iat = 1700000000, json_iss = ''pray-together'',
                       json_sub = [], json_nbf = None\<rparr>)
             ''c2VjcmV0NDJhQHguY29tIyMjIyMjIyMjIyMjIyMjIyM'') = Inr claims
        \<and> MemberID claims = ''42'' \<and> Claims.Email claims = ''a@x.com''
        \<and> TokenType claims = ''access'')
   \<and> Suc 0 < length ''c2VjcmV0NDJhQHguY29tIyMjIyMjIyMjIyMjIyMjIyM''
   \<and> CHR ''X'' \<noteq> ''c2VjcmV0NDJhQHguY29tIyMjIyMjIyMjIyMjIyMjIyM'' ! 0
   \<and> (\<exists>err.
        ValidateToken (jwt_ParseWithClaims_base64 example_mac32 1700000060000000000)
          example_manager
          (Parts (Decoded \<lparr>alg = ''HS256'', token_typ = ''JWT''\<rparr>)
             (Decoded \<lparr>json_member_id = ''42'', json_email = ''a@x.com'',
                       json_token_type = ''access'', json_exp = 1700000900,
                       json_iat = 1700000000, json_iss = ''pray-together'',
                       json_sub = [], json_nbf = None\<rparr>)
             ''X2VjcmV0NDJhQHguY29tIyMjIyMjIyMjIyMjIyMjIyM'') = Inl err)
   \<and> DecodeSegment ''c2VjcmV0'' \<noteq> DecodeSegment ''c2VjcmV0NDJhQHguY29tIyMjIyMjIyMjIyMjIyMjIyM''
   \<and> (\<exists>err.
        ValidateToken (jwt_ParseWithClaims_base64 example_mac32 1700000060000000000)
          example_manager
          (Parts (Decoded \<lparr>alg = ''HS256'', token_typ = ''JWT''\<rparr>)
             (Decoded \<lparr>json_member_id = ''42'', json_email = ''a@x.com'',
                       json_token_type = ''access'', json_exp = 1700000900,
                       json_iat = 1700000000, json_iss = ''pray-together'',
                       json_sub = [], json_nbf = None\<rparr>)
             ''c2VjcmV0'') = Inl err)"
proof -
  let ?h0 = "\<lparr>alg = ''HS256'', token_typ = ''JWT''\<rparr>"
  let ?j0 = "\<lparr>json_member_id = ''42'', json_email = ''a@x.com'',
                       json_token_type = ''access'', json_exp = 1700000900,
                       json_iat = 1700000000, json_iss = ''pray-together'',
                       json_sub = [], json_nbf = None\<rparr>"
  let ?s0 = "''c2VjcmV0NDJhQHguY29tIyMjIyMjIyMjIyMjIyMjIyM''"
  let ?t = "1700000060000000000 :: int"
  have e: "GenerateAccessToken (jwt_SignedString_base64 example_mac32) example_manager
        1700000000123456789 ''42'' ''a@x.com''
      = Inr (Parts (Decoded ?h0) (Decoded ?j0) ?s0)"
    by code_simp
  have before: "?t < NewNumericDate (1700000000123456789 + accessExpiry example_manager)"
    by (simp add: NewNumericDate_def example_manager_def)
  have valid: "ValidString ''42'' \<and> ValidString ''a@x.com''"
    by (simp add: ValidString_ascii)
  have byte: "Suc 0 < length ?s0 \<and> CHR ''X'' \<noteq> ?s0 ! 0"
    by simp
  have other: "DecodeSegment ''c2VjcmV0'' \<noteq> DecodeSegment ?s0"
    by code_simp
  from token_round_trip [of example_mac32 example_manager 1700000000123456789 "''42''"
      "''a@x.com''"]
  obtain h j sigtext where
    g: "GenerateAccessToken (jwt_SignedString_base64 example_mac32) example_manager
          1700000000123456789 ''42'' ''a@x.com''
        = Inr (Parts (Decoded h) (Decoded j) sigtext)"
    and v: "\<forall>t. t < NewNumericDate (1700000000123456789 + accessExpiry example_manager)
          \<longrightarrow> (\<exists>claims.
                ValidateToken (jwt_ParseWithClaims_base64 example_mac32 t) example_manager
                    (Parts (Decoded h) (Decoded j) sigtext) = Inr claims
                \<and> MemberID claims = coerce_valid_utf8 ''42''
                \<and> Claims.Email claims = coerce_valid_utf8 ''a@x.com''
                \<and> TokenType claims = ''access''
                \<and> (ValidString ''42'' \<and> ValidString ''a@x.com''
                     \<longrightarrow> MemberID claims = ''42'' \<and> Claims.Email claims = ''a@x.com''))"
    and b: "\<forall>t i c. Suc i < length sigtext \<and> c \<noteq> sigtext ! i
          \<longrightarrow> (\<exists>err.
                ValidateToken (jwt_ParseWithClaims_base64 example_mac32 t) example_manager
                    (Parts (Decoded h) (Decoded j) (sigtext[i := c])) = Inl err)"
    and oth: "\<forall>t text'. DecodeSegment text' \<noteq> DecodeSegment sigtext
          \<longrightarrow> (\<exists>err.
                ValidateToken (jwt_ParseWithClaims_base64 example_mac32 t) example_manager
                    (Parts (Decoded h) (Decoded j) text') = Inl err)"
    by (elim exE conjE)
  from g e have eq: "h = ?h0" "j = ?j0" "sigtext = ?s0"
    by simp_all
  from v [rule_format, OF before] valid eq
  have r: "\<exists>claims.
        ValidateToken (jwt_ParseWithClaims_base64 example_mac32 ?t) example_manager
          (Parts (Decoded ?h0) (Decoded ?j0) ?s0) = Inr claims
        \<and> MemberID claims = ''42'' \<and> Claims.Email claims = ''a@x.com''
        \<and> TokenType claims = ''access''"
    by auto
  from byte eq have byte': "Suc 0 < length sigtext \<and> CHR ''X'' \<noteq> sigtext ! 0"
    by simp
  from b [rule_format, OF byte', of ?t] eq
  have w: "\<exists>err.
        ValidateToken (jwt_ParseWithClaims_base64 example_mac32 ?t) example_manager
          (Parts (Decoded ?h0) (Decoded ?j0) ''X2VjcmV0NDJhQHguY29tIyMjIyMjIyMjIyMjIyMjIyM'') = Inl err"
    by simp
  from other eq have other': "DecodeSegment ''c2VjcmV0'' \<noteq> DecodeSegment sigtext"
    by simp
  from oth [rule_format, OF other', of ?t] eq
  have w2: "\<exists>err.
        ValidateToken (jwt_ParseWithClaims_base64 example_mac32 ?t) example_manager
          (Parts (Decoded ?h0) (Decoded ?j0) ''c2VjcmV0'') = Inl err"
    by simp
  from e before valid r byte w other w2 show ?thesis
    by (intro conjI) simp_all
qed

text \<open>
  With the library's signer and parser, the manager does not enforce the expiry.  The
  keys \<^verbatim>\<open>exp\<close> and \<^verbatim>\<open>iat\<close> are read into the \<^verbatim>\<open>int64\<close> fields of \<^verbatim>\<open>Claims\<close>, the
  \<^verbatim>\<open>*NumericDate\<close> fields that the validator consults stay \<^verbatim>\<open>nil\<close>, and a correctly signed
  token validates at every time, also after the expiry written into it.
\<close>

lemma ValidateToken_ignores_expiry:
  "\<exists>tok claims.
     GenerateAccessToken (jwt_SignedString mac) m issued memberID email = Inr tok
     \<and> (\<forall>t. ValidateToken (jwt_ParseWithClaims mac t) m tok = Inr claims)
     \<and> Claims.ExpiresAt claims = Unix (issued + accessExpiry m)
     \<and> RegisteredClaims.ExpiresAt (Registered claims) = None"
  by (simp add: GenerateAccessToken_claims jwt_SignedString_def ValidateToken_signed Let_def
      unmarshal_Claims_def marshal_Claims_def)

lemma ValidateToken_library_never_expired_or_invalid_claims:
  "ValidateToken (jwt_ParseWithClaims mac t) m tok \<noteq> Inl token_ErrInvalidClaims
   \<and> ValidateToken (jwt_ParseWithClaims mac t) m tok \<noteq> Inl token_ErrExpiredToken"
proof -
  have "\<And>errs. jwt_ParseWithClaims mac t [''HS256''] (secret m) tok = Inl errs
          \<Longrightarrow> ErrTokenExpired \<notin> set errs"
    using jwt_Validate_unmarshal_not_expired [of t]
    by (auto simp: jwt_ParseWithClaims_def Let_def
        split: token_text.splits segment.splits if_splits list.splits)
  moreover have "\<And>token. jwt_ParseWithClaims mac t [''HS256''] (secret m) tok = Inr token
          \<Longrightarrow> \<exists>claims. Token_Claims token = CustomClaims claims \<and> Valid token"
    by (auto simp: jwt_ParseWithClaims_def Let_def
        split: token_text.splits segment.splits if_splits list.splits)
  ultimately show ?thesis
    using token_sentinels_distinct
    by (cases "jwt_ParseWithClaims mac t [''HS256''] (secret m) tok")
      (auto simp: ValidateToken_def)
qed

text \<open>
  Claim C2, as stated, fails.  A correctly signed token whose claims segment cannot be
  decoded is refused with \<open>ErrInvalidToken\<close>, not with \<open>ErrInvalidClaims\<close>; and the
  access token issued at second 1700000000 with a lifetime of 900 seconds, presented
  a day later, is not refused with \<open>ErrExpiredToken\<close>: it validates.
\<close>

theorem ValidateToken_taxonomy_counterexample:
  "ValidateToken (jwt_ParseWithClaims example_mac 1700000060000000000) example_manager
      (Segments (Decoded \<lparr>alg = ''HS256'', token_typ = ''JWT''\<rparr>) Undecodable
         (Decoded ''secret''))
     = Inl token_ErrInvalidToken
   \<and> token_ErrInvalidToken \<noteq> token_ErrInvalidClaims
   \<and> GenerateAccessToken (jwt_SignedString example_mac) example_manager 1700000000123456789
        ''42'' ''a@x.com''
     = Inr (Segments (Decoded \<lparr>alg = ''HS256'', token_typ = ''JWT''\<rparr>)
              (Decoded \<lparr>json_member_id = ''42'', json_email = ''a@x.com'',
                        json_token_type = ''access'', json_exp = 1700000900,
                        json_iat = 1700000000, json_iss = ''pray-together'',
                        json_sub = [], json_nbf = None\<rparr>)
              (Decoded ''secret42a@x.com''))
   \<and> Unix 1700086400000000000 > 1700000900
   \<and> ValidateToken (jwt_ParseWithClaims example_mac 1700086400000000000) example_manager
        (Segments (Decoded \<lparr>alg = ''HS256'', token_typ = ''JWT''\<rparr>)
           (Decoded \<lparr>json_member_id = ''42'', json_email = ''a@x.com'',
                     json_token_type = ''access'', json_exp = 1700000900,
                     json_iat = 1700000000, json_iss = ''pray-together'',
                     json_sub = [], json_nbf = None\<rparr>)
           (Decoded ''secret42a@x.com''))
     \<noteq> Inl token_ErrExpiredToken"
proof (intro conjI)
  show "ValidateToken (jwt_ParseWithClaims example_mac 1700000060000000000) example_manager
      (Segments (Decoded \<lparr>alg = ''HS256'', token_typ = ''JWT''\<rparr>) Undecodable
         (Decoded ''secret''))
     = Inl token_ErrInvalidToken"
    by (rule ValidateToken_undecodable_claims)
  show "token_ErrInvalidToken \<noteq> token_ErrInvalidClaims"
    using token_sentinels_distinct(3) by simp
  show "GenerateAccessToken (jwt_SignedString example_mac) example_manager 1700000000123456789
        ''42'' ''a@x.com''
     = Inr (Segments (Decoded \<lparr>alg = ''HS256'', token_typ = ''JWT''\<rparr>)
              (Decoded \<lparr>json_member_id = ''42'', json_email = ''a@x.com'',
                        json_token_type = ''access'', json_exp = 1700000900,
                        json_iat = 1700000000, json_iss = ''pray-together'',
                        json_sub = [], json_nbf = None\<rparr>)
              (Decoded ''secret42a@x.com''))"
    by (simp add: GenerateAccessToken_claims jwt_SignedString_def marshal_Claims_def
        example_manager_def example_mac_def Unix_def Let_def coerce_valid_utf8_ascii)
  show "Unix 1700086400000000000 > 1700000900"
    by (simp add: Unix_def)
  show "ValidateToken (jwt_ParseWithClaims example_mac 1700086400000000000) example_manager
        (Segments (Decoded \<lparr>alg = ''HS256'', token_typ = ''JWT''\<rparr>)
           (Decoded \<lparr>json_member_id = ''42'', json_email = ''a@x.com'',
                     json_token_type = ''access'', json_exp = 1700000900,
                     json_iat = 1700000000, json_iss = ''pray-together'',
                     json_sub = [], json_nbf = None\<rparr>)
           (Decoded ''secret42a@x.com''))
     \<noteq> Inl token_ErrExpiredToken"
    by (simp add: ValidateToken_library_never_expired_or_invalid_claims)
qed

text \<open>
  Claim C2, amended.  Whatever the parser of the library is: when it reports the token
  as expired, \<open>ValidateToken\<close> fails with \<open>ErrExpiredToken\<close>, which is not the generic
  \<open>ErrInvalidToken\<close>; every other failure of the parser yields \<open>ErrInvalidToken\<close>;
  \<open>ErrInvalidClaims\<close> is returned only for a parsed token whose claims are not of the
  type \<^verbatim>\<open>*Claims\<close>; and a parsed token that is not marked valid yields
  \<open>ErrInvalidToken\<close>.  With the parser of the library, a malformed token, a claims
  segment that cannot be decoded and a signature that does not verify are all refused
  with \<open>ErrInvalidToken\<close>.
\<close>

theorem ValidateToken_failure_taxonomy:
  "(\<forall>err. ParseWithClaims [''HS256''] (secret m) tok = Inl err \<and> ErrTokenExpired \<in> set err
       \<longrightarrow> ValidateToken ParseWithClaims m tok = Inl token_ErrExpiredToken)
   \<and> token_ErrExpiredToken \<noteq> token_ErrInvalidToken
   \<and> (\<forall>err. ParseWithClaims [''HS256''] (secret m) tok = Inl err \<and> ErrTokenExpired \<notin> set err
       \<longrightarrow> ValidateToken ParseWithClaims m tok = Inl token_ErrInvalidToken)
   \<and> (\<forall>token. ParseWithClaims [''HS256''] (secret m) tok = Inr token
          \<and> Token_Claims token = ForeignClaims
       \<longrightarrow> ValidateToken ParseWithClaims m tok = Inl token_ErrInvalidClaims)
   \<and> (\<forall>token claims. ParseWithClaims [''HS256''] (secret m) tok = Inr token
          \<and> Token_Claims token = CustomClaims claims
       \<longrightarrow> ValidateToken ParseWithClaims m tok
           = (if Valid token then Inr claims else Inl token_ErrInvalidToken))
   \<and> ValidateToken (jwt_ParseWithClaims mac t) m NotThreeSegments = Inl token_ErrInvalidToken
   \<and> (\<forall>h s. ValidateToken (jwt_ParseWithClaims mac t) m (Segments h Undecodable s)
         = Inl token_ErrInvalidToken)
   \<and> (\<forall>h j s. s \<noteq> mac (secret m) (h, j)
       \<longrightarrow> ValidateToken (jwt_ParseWithClaims mac t) m
             (Segments (Decoded h) (Decoded j) (Decoded s)) = Inl token_ErrInvalidToken)"
proof (intro conjI allI impI)
  fix err
  assume "ParseWithClaims [''HS256''] (secret m) tok = Inl err \<and> ErrTokenExpired \<in> set err"
  then show "ValidateToken ParseWithClaims m tok = Inl token_ErrExpiredToken"
    by (simp add: ValidateToken_def)
next
  show "token_ErrExpiredToken \<noteq> token_ErrInvalidToken"
    by (rule token_sentinels_distinct)
next
  fix err
  assume "ParseWithClaims [''HS256''] (secret m) tok = Inl err \<and> ErrTokenExpired \<notin> set err"
  then show "ValidateToken ParseWithClaims m tok = Inl token_ErrInvalidToken"
    by (simp add: ValidateToken_def)
next
  fix token
  assume "ParseWithClaims [''HS256''] (secret m) tok = Inr token
      \<and> Token_Claims token = ForeignClaims"
  then show "ValidateToken ParseWithClaims m tok = Inl token_ErrInvalidClaims"
    by (simp add: ValidateToken_def)
next
  fix token claims
  assume "ParseWithClaims [''HS256''] (secret m) tok = Inr token
      \<and> Token_Claims token = CustomClaims claims"
  then show "ValidateToken ParseWithClaims m tok
      = (if Valid token then Inr claims else Inl token_ErrInvalidToken)"
    by (simp add: ValidateToken_def)
next
  show "ValidateToken (jwt_ParseWithClaims mac t) m NotThreeSegments = Inl token_ErrInvalidToken"
    by (rule ValidateToken_malformed)
next
  fix h s
  show "ValidateToken (jwt_ParseWithClaims mac t) m (Segments h Undecodable s)
      = Inl token_ErrInvalidToken"
    by (rule ValidateToken_undecodable_claims)
next
  fix h j s
  assume "s \<noteq> mac (secret m) (h, j)"
  then show "ValidateToken (jwt_ParseWithClaims mac t) m
      (Segments (Decoded h) (Decoded j) (Decoded s)) = Inl token_ErrInvalidToken"
    by (rule ValidateToken_bad_signature)
qed

theorem ValidateToken_failure_taxonomy_witness:
  "ValidateToken (\<lambda>methods key tok. Inl [ErrTokenInvalidClaims, ErrTokenExpired])
      example_manager ''a.b.c'' = Inl token_ErrExpiredToken
   \<and> ValidateToken (\<lambda>methods key tok. Inl [ErrTokenSignatureInvalid])
        example_manager ''a.b.c'' = Inl token_ErrInvalidToken
   \<and> ValidateToken (\<lambda>methods key tok. Inr \<lparr>Token_Claims = ForeignClaims, Valid = True\<rparr>)
        example_manager ''a.b.c'' = Inl token_ErrInvalidClaims
   \<and> ValidateToken
        (\<lambda>methods key tok. Inr \<lparr>Token_Claims = CustomClaims example_claims, Valid = False\<rparr>)
        example_manager ''a.b.c'' = Inl token_ErrInvalidToken
   \<and> ''forged'' \<noteq> example_mac (secret example_manager)
        (\<lparr>alg = ''HS256'', token_typ = ''JWT''\<rparr>, marshal_Claims example_claims)
   \<and> ValidateToken (jwt_ParseWithClaims example_mac 0) example_manager
        (Segments (Decoded \<lparr>alg = ''HS256'', token_typ = ''JWT''\<rparr>)
           (Decoded (marshal_Claims example_claims)) (Decoded ''forged''))
       = Inl token_ErrInvalidToken"
proof -
  let ?expired = "\<lambda>(methods :: string list) (key :: string) (tok :: string).
      Inl [ErrTokenInvalidClaims, ErrTokenExpired] :: jwt_error list + Token"
  let ?badsig = "\<lambda>(methods :: string list) (key :: string) (tok :: string).
      Inl [ErrTokenSignatureInvalid] :: jwt_error list + Token"
  let ?foreign = "\<lambda>(methods :: string list) (key :: string) (tok :: string).
      Inr \<lparr>Token_Claims = ForeignClaims, Valid = True\<rparr> :: jwt_error list + Token"
  let ?invalid = "\<lambda>(methods :: string list) (key :: string) (tok :: string).
      Inr \<lparr>Token_Claims = CustomClaims example_claims, Valid = False\<rparr> :: jwt_error list + Token"
  let ?h = "\<lparr>alg = ''HS256'', token_typ = ''JWT''\<rparr>"
  note T = ValidateToken_failure_taxonomy
  note T1 = T [where ParseWithClaims = ?expired and m = example_manager and tok = "''a.b.c''"]
  note T2 = T [where ParseWithClaims = ?badsig and m = example_manager and tok = "''a.b.c''"]
  note T3 = T [where ParseWithClaims = ?foreign and m = example_manager and tok = "''a.b.c''"]
  note T4 = T [where ParseWithClaims = ?invalid and m = example_manager and tok = "''a.b.c''"]
  note T5 = T [where ParseWithClaims = ?expired and m = example_manager and tok = "''a.b.c''"
      and mac = example_mac and t = 0]
  have h1: "?expired [''HS256''] (secret example_manager) ''a.b.c''
        = Inl [ErrTokenInvalidClaims, ErrTokenExpired]
      \<and> ErrTokenExpired \<in> set [ErrTokenInvalidClaims, ErrTokenExpired]"
    by simp
  have h2: "?badsig [''HS256''] (secret example_manager) ''a.b.c''
        = Inl [ErrTokenSignatureInvalid]
      \<and> ErrTokenExpired \<notin> set [ErrTokenSignatureInvalid]"
    by simp
  have h3: "?foreign [''HS256''] (secret example_manager) ''a.b.c''
        = Inr \<lparr>Token_Claims = ForeignClaims, Valid = True\<rparr>
      \<and> Token_Claims \<lparr>Token_Claims = ForeignClaims, Valid = True\<rparr> = ForeignClaims"
    by simp
  have h4: "?invalid [''HS256''] (secret example_manager) ''a.b.c''
        = Inr \<lparr>Token_Claims = CustomClaims example_claims, Valid = False\<rparr>
      \<and> Token_Claims \<lparr>Token_Claims = CustomClaims example_claims, Valid = False\<rparr>
        = CustomClaims example_claims"
    by simp
  have h5: "''forged'' \<noteq> example_mac (secret example_manager)
      (?h, marshal_Claims example_claims)"
    by (simp add: example_mac_def example_manager_def)
  note w1 = T1 [THEN conjunct1, rule_format, OF h1]
  note w2 = T2 [THEN conjunct2, THEN conjunct2, THEN conjunct1, rule_format, OF h2]
  note w3 = T3 [THEN conjunct2, THEN conjunct2, THEN conjunct2, THEN conjunct1,
      rule_format, OF h3]
  have w4: "ValidateToken ?invalid example_manager ''a.b.c'' = Inl token_ErrInvalidToken"
    using T4 [THEN conjunct2, THEN conjunct2, THEN conjunct2, THEN conjunct2,
        THEN conjunct1, rule_format, OF h4]
    by simp
  note w5 = T5 [THEN conjunct2, THEN conjunct2, THEN conjunct2, THEN conjunct2,
      THEN conjunct2, THEN conjunct2, THEN conjunct2, rule_format, OF h5]
  from w1 w2 w3 w4 h5 w5 show ?thesis
    by (intro conjI)
qed

end
